theory Spec2Isabelle
  imports Complex_Main "HOL-Library.Word" "HOL-Library.AList"
begin

section \<open>Python values used by the generator\<close>

text \<open>
  The exceptions that \<^verbatim>\<open>ct2mcnp/generator.py\<close> can raise. The module defines no
  exception class of its own: a failed \<^verbatim>\<open>assert\<close> is an AssertionError, a missing
  dictionary key a KeyError (with the key), an index past the end of an array an
  IndexError, an attribute that was never assigned an AttributeError (with its name),
  \<^verbatim>\<open>min\<close> or \<^verbatim>\<open>max\<close> of an empty sequence and a broadcast of unequal shapes a
  ValueError.
\<close>

datatype error =
    AssertionError
  | KeyError string
  | IndexError
  | AttributeError string
  | ValueError

text \<open>
  Floating-point numbers are idealised as reals. How Python prints a float is not part
  of this development: the two conversions the module uses are parameters,
  \<open>fmt3f\<close> for the format \<^verbatim>\<open>{x:.3f}\<close> and \<open>str_float\<close> for \<^verbatim>\<open>str(x)\<close>.
\<close>

record pyfmt =
  fmt3f :: "real \<Rightarrow> string"
  str_float :: "real \<Rightarrow> string"

text \<open>\<^verbatim>\<open>str(n)\<close> for a non-negative and for an arbitrary integer: decimal digits.\<close>

definition digit_char :: "nat \<Rightarrow> char" where
  "digit_char d = ''0123456789'' ! d"

function str_nat :: "nat \<Rightarrow> string" where
  "str_nat n = (if n < 10 then [digit_char n] else str_nat (n div 10) @ [digit_char (n mod 10)])"
  by pat_completeness auto
termination
  by (relation "measure id") auto

declare str_nat.simps [simp del]

definition str_int :: "int \<Rightarrow> string" where
  "str_int i = (if i < 0 then CHR ''-'' # str_nat (nat (- i)) else str_nat (nat i))"

text \<open>A scalar of the run configuration (a TOML integer, float or string) and its \<^verbatim>\<open>str\<close>.\<close>

datatype scalar = PyInt int | PyFloat real | PyStr string

fun str_scalar :: "pyfmt \<Rightarrow> scalar \<Rightarrow> string" where
  "str_scalar F (PyInt i) = str_int i"
| "str_scalar F (PyFloat x) = str_float F x"
| "str_scalar F (PyStr s) = s"

text \<open>\<^verbatim>\<open>sep.join(xs)\<close>.\<close>

fun join :: "string \<Rightarrow> string list \<Rightarrow> string" where
  "join sep [] = []"
| "join sep [x] = x"
| "join sep (x # y # ys) = x @ sep @ join sep (y # ys)"

text \<open>
  A configuration value that is either a list or a single scalar, and
  \<^verbatim>\<open>_list_to_str\<close>, which joins a list with blanks and prints anything else with
  \<^verbatim>\<open>str\<close>.
\<close>

datatype cfgval = ListV "scalar list" | ScalarV scalar

fun list_to_str :: "pyfmt \<Rightarrow> cfgval \<Rightarrow> string" where
  "list_to_str F (ListV vec) = join '' '' (map (str_scalar F) vec)"
| "list_to_str F (ScalarV v) = str_scalar F v"

text \<open>\<^verbatim>\<open>xs[i]\<close> for a constant index \<open>i \<ge> 0\<close>: IndexError past the end.\<close>

definition getitem :: "'a list \<Rightarrow> nat \<Rightarrow> error + 'a" where
  "getitem xs i = (if i < length xs then Inr (xs ! i) else Inl IndexError)"

text \<open>
  Sequencing of a step that may raise: the exception of the first step is the result,
  otherwise the second step runs on the first one's value.
\<close>

definition then_do :: "error + 'a \<Rightarrow> ('a \<Rightarrow> error + 'b) \<Rightarrow> error + 'b" where
  "then_do r f = (case r of Inl e \<Rightarrow> Inl e | Inr x \<Rightarrow> f x)"

section \<open>The voxel classifier\<close>

text \<open>
  A numpy array: its shape and its elements in iteration order (C order, the last
  axis varying fastest), which is the order \<^verbatim>\<open>np.nditer\<close> visits them in.
\<close>

record 'a ndarray =
  shape :: "nat list"
  data :: "'a list"

text \<open>
  The image the generator is given, as far as the generator looks at it: the result of
  \<^verbatim>\<open>GetSize()\<close> (voxel counts along x, y, z), of \<^verbatim>\<open>GetSpacing()\<close>, and the samples
  in the order of the image buffer (x varying fastest). \<^verbatim>\<open>sitk.GetArrayFromImage\<close>
  is SimpleITK's: it returns the buffer as an array indexed \<^verbatim>\<open>[z, y, x]\<close>, so the
  array's shape is the size vector reversed and its C order is the buffer's order.
  Samples, boundaries and spacings are idealised as reals.
\<close>

record image =
  img_size :: "nat list"
  img_spacing :: "real list"
  img_buffer :: "real list"

definition GetArrayFromImage :: "image \<Rightarrow> real ndarray" where
  "GetArrayFromImage ct = \<lparr>shape = rev (img_size ct), data = img_buffer ct\<rparr>"

text \<open>
  What \<^verbatim>\<open>Geometry\<close> copies from a \<^verbatim>\<open>CTVoxel\<close>: both classes have these attributes.
  \<open>size_vec\<close> is the attribute \<^verbatim>\<open>size\<close>. \<open>element_table\<close> is a dictionary whose
  order matters when it is written, hence an association list.
\<close>

record lattice_data =
  size_vec :: "int list"
  spacing :: "real list"
  index_map :: "32 word ndarray"
  keys :: "int list"
  element_table :: "(int \<times> (scalar \<times> scalar) list) list"
  density_table :: "int \<rightharpoonup> scalar"

record ctvoxel = lattice_data +
  array :: "real ndarray"
  hu_interval :: "real list"

text \<open>
  One entry of the material configuration: a dictionary with the keys
  \<^verbatim>\<open>hu_interval\<close>, \<^verbatim>\<open>nucleon\<close>, \<^verbatim>\<open>fraction\<close> and \<^verbatim>\<open>density\<close>; \<open>None\<close> is a key
  that the entry does not have. The material configuration is an association list in
  the order of the dictionary. The loop over it uses the key \<open>i\<close> of an entry only as
  \<^verbatim>\<open>int(i)\<close>, so the entry stands under the outcome of that call: the integer, or
  \<open>None\<close> when \<^verbatim>\<open>int(i)\<close> raises ValueError because the key is not an integer.
\<close>

record material_entry =
  m_hu_interval :: "real list option"
  m_nucleon :: "scalar list option"
  m_fraction :: "scalar list option"
  m_density :: "scalar option"

type_synonym material_config = "(int option \<times> material_entry) list"

text \<open>
  \<^verbatim>\<open>hu_interval = list(set(raw)); hu_interval.sort(key=raw.index)\<close>: the distinct
  entries of \<open>raw\<close>, each at the place of its first occurrence.
\<close>

definition first_seen :: "'a list \<Rightarrow> 'a list" where
  "first_seen raw = fold (\<lambda>x seen. if x \<in> set seen then seen else seen @ [x]) raw []"

text \<open>\<^verbatim>\<open>dict(list(zip(ks, vs)))\<close>: a later pair replaces the value of an equal key.\<close>

definition dict_of_pairs :: "('k \<times> 'v) list \<Rightarrow> ('k \<times> 'v) list" where
  "dict_of_pairs ps = fold (\<lambda>(k, v) d. AList.update k v d) ps []"

text \<open>
  The loop of \<^verbatim>\<open>_parse_material\<close>, with the four accumulators \<open>raw_hu_interval\<close>,
  \<open>element_table\<close>, \<open>density_table\<close> and \<open>keys\<close>. One pass reads
  \<^verbatim>\<open>material['hu_interval']\<close>, then calls \<^verbatim>\<open>int(i)\<close>, then reads \<^verbatim>\<open>nucleon\<close>,
  \<^verbatim>\<open>fraction\<close> and \<^verbatim>\<open>density\<close>.
\<close>

fun parse_material_loop ::
  "material_config \<Rightarrow>
   real list \<times> (int \<times> (scalar \<times> scalar) list) list \<times> (int \<rightharpoonup> scalar) \<times> int list \<Rightarrow>
   error + real list \<times> (int \<times> (scalar \<times> scalar) list) list \<times> (int \<rightharpoonup> scalar) \<times> int list" where
  "parse_material_loop [] acc = Inr acc"
| "parse_material_loop ((i, material) # rest) (raw, et, dt, ks) =
     (case m_hu_interval material of None \<Rightarrow> Inl (KeyError ''hu_interval'') | Some hu \<Rightarrow>
     (case i of None \<Rightarrow> Inl ValueError | Some n \<Rightarrow>
     (case m_nucleon material of None \<Rightarrow> Inl (KeyError ''nucleon'') | Some nu \<Rightarrow>
     (case m_fraction material of None \<Rightarrow> Inl (KeyError ''fraction'') | Some fr \<Rightarrow>
     (case m_density material of None \<Rightarrow> Inl (KeyError ''density'') | Some d \<Rightarrow>
        parse_material_loop rest
          (raw @ hu, AList.update n (dict_of_pairs (zip nu fr)) et, dt(n \<mapsto> d), ks @ [n]))))))"

definition parse_material ::
  "material_config \<Rightarrow>
   error + real list \<times> (int \<times> (scalar \<times> scalar) list) list \<times> (int \<rightharpoonup> scalar) \<times> int list" where
  "parse_material material_config =
     then_do (parse_material_loop material_config ([], [], Map.empty, []))
       (\<lambda>(raw, et, dt, ks). Inr (first_seen raw, et, dt, ks))"

text \<open>
  \<^verbatim>\<open>bisect.bisect_left(a, x)\<close> of the standard library, with its defaults
  \<open>lo = 0\<close> and \<open>hi = len(a)\<close>.
\<close>

function bisect_loop :: "real list \<Rightarrow> real \<Rightarrow> nat \<Rightarrow> nat \<Rightarrow> nat" where
  "bisect_loop a x lo hi =
     (if lo < hi then
        (let mid = (lo + hi) div 2 in
         if a ! mid < x then bisect_loop a x (mid + 1) hi else bisect_loop a x lo mid)
      else lo)"
  by pat_completeness auto
termination
  by (relation "measure (\<lambda>(a, x, lo, hi). hi - lo)") auto

declare bisect_loop.simps [simp del]

definition bisect_left :: "real list \<Rightarrow> real \<Rightarrow> nat" where
  "bisect_left a x = bisect_loop a x 0 (length a)"

text \<open>
  The loop of \<^verbatim>\<open>_convert_hu_to_material\<close>: \<open>rest\<close> are the samples the iterator has
  not visited yet, \<open>pos\<close> is the position of the iterator (what \<^verbatim>\<open>it.multi_index\<close>
  addresses), \<open>imap\<close> the elements of \<^verbatim>\<open>index_map\<close>. The index is stored into an
  array of unsigned 32-bit integers: the model keeps its low 32 bits. (An index of
  \<open>2\<^sup>3\<^sup>2\<close> or more needs as many boundaries; what NumPy does with it depends on the
  version, and the theorems about indices assume fewer boundaries.)
\<close>

fun convert_loop :: "real list \<Rightarrow> real list \<Rightarrow> nat \<Rightarrow> 32 word list \<Rightarrow> 32 word list" where
  "convert_loop hu [] pos imap = imap"
| "convert_loop hu (x # rest) pos imap =
     (let index = bisect_left hu x;
          index = (if index = 0 then 1 else index)
      in convert_loop hu rest (Suc pos) (imap[pos := of_nat index]))"

definition zeros_like :: "'a ndarray \<Rightarrow> 32 word ndarray" where
  "zeros_like a = \<lparr>shape = shape a, data = replicate (length (data a)) 0\<rparr>"

definition convert_hu_to_material :: "real list \<Rightarrow> real ndarray \<Rightarrow> 32 word ndarray" where
  "convert_hu_to_material hu arr =
     (let index_map = zeros_like arr
      in index_map\<lparr>data := convert_loop hu (data arr) 0 (data index_map)\<rparr>)"

text \<open>\<^verbatim>\<open>np.clip(a, lo, hi)\<close> is \<^verbatim>\<open>minimum(maximum(a, lo), hi)\<close>, elementwise.\<close>

definition clip :: "real ndarray \<Rightarrow> real \<Rightarrow> real \<Rightarrow> real ndarray" where
  "clip a lo hi = a\<lparr>data := map (\<lambda>x. min (max x lo) hi) (data a)\<rparr>"

text \<open>\<^verbatim>\<open>min\<close> and \<^verbatim>\<open>max\<close> of a list: ValueError when it is empty.\<close>

definition py_min :: "real list \<Rightarrow> error + real" where
  "py_min xs = (if xs = [] then Inl ValueError else Inr (fold min (tl xs) (hd xs)))"

definition py_max :: "real list \<Rightarrow> error + real" where
  "py_max xs = (if xs = [] then Inl ValueError else Inr (fold max (tl xs) (hd xs)))"

text \<open>
  \<^verbatim>\<open>np.around(x, 3)\<close>: to three decimals, a tie going to the even neighbour.
\<close>

definition rint :: "real \<Rightarrow> int" where
  "rint x = (let f = \<lfloor>x\<rfloor>; d = x - real_of_int f in
             if d < 1 / 2 then f else if 1 / 2 < d then f + 1 else if even f then f else f + 1)"

definition around3 :: "real \<Rightarrow> real" where
  "around3 x = real_of_int (rint (x * 1000)) / 1000"

text \<open>\<^verbatim>\<open>CTVoxel.__init__\<close>.\<close>

definition CTVoxel :: "image \<Rightarrow> material_config \<Rightarrow> error + ctvoxel" where
  "CTVoxel ct material_config =
     (let arr = GetArrayFromImage ct;
          sp = map (\<lambda>s. around3 (s / 20)) (img_spacing ct);
          sz = map int (img_size ct)
      in then_do (parse_material material_config) (\<lambda>(hu, et, dt, ks).
         then_do (py_min hu) (\<lambda>lo.
         then_do (py_max hu) (\<lambda>hi.
           let arr = clip arr lo hi in
           Inr \<lparr>size_vec = sz, spacing = sp, index_map = convert_hu_to_material hu arr,
                keys = ks, element_table = et, density_table = dt,
                array = arr, hu_interval = hu\<rparr>))))"

section \<open>The lattice geometry\<close>

text \<open>
  The attributes of a \<^verbatim>\<open>Geometry\<close> object: those copied from the voxel classifier,
  the mode string, and the ones that the three \<^verbatim>\<open>_build_\<close> methods assign.
\<close>

record geometry = lattice_data +
  mode :: string
  base_cell_surfaces :: "string list"
  base_cell_geom :: string
  phantom_cell_surfaces :: "string list"
  phantom_origin :: "real list"
  phantom_limit :: "real list"
  fill :: string
  phantom_cell_geom :: string
  word_cell_surface :: string

text \<open>
  \<^verbatim>\<open>_build_base_cell_surfaces\<close>: six planes at plus and minus the spacing of each axis.
\<close>

definition build_base_cell_surfaces :: "pyfmt \<Rightarrow> geometry \<Rightarrow> error + geometry" where
  "build_base_cell_surfaces F g =
     then_do (getitem (spacing g) 0) (\<lambda>s0.
     then_do (getitem (spacing g) 1) (\<lambda>s1.
     then_do (getitem (spacing g) 2) (\<lambda>s2.
       Inr (g\<lparr>base_cell_surfaces :=
                [''11    px    '' @ fmt3f F s0 @ ''\<newline>'',
                 ''12    px    '' @ fmt3f F (- s0) @ ''\<newline>'',
                 ''13    py    '' @ fmt3f F s1 @ ''\<newline>'',
                 ''14    py    '' @ fmt3f F (- s1) @ ''\<newline>'',
                 ''15    pz    '' @ fmt3f F s2 @ ''\<newline>'',
                 ''16    pz    '' @ fmt3f F (- s2) @ ''\<newline>''],
              base_cell_geom := ''-11 12 -13 14 -15 16''\<rparr>))))"

text \<open>
  \<^verbatim>\<open>_build_phantom_cell_surfaces\<close> repeats one block for the axes 0, 1 and 2. The
  blocks differ in the surface numbers (111 and 112, 113 and 114, 115 and 116), in the
  plane keyword (px, py, pz) and in what follows the axis's range in the fill string
  (a blank after the axes 0 and 1, nothing after axis 2). \<open>phantom_axis\<close> is that
  block: \<open>n1\<close>, \<open>n2\<close> the surface numbers, \<open>p\<close> the keyword, \<open>sep\<close> the text after the
  range, \<open>i\<close> the axis. \<open>half_size\<close> is \<^verbatim>\<open>self.size // 2\<close>, read at an index where
  \<open>size\<close> has just been read.
\<close>

definition phantom_axis ::
  "pyfmt \<Rightarrow> string \<Rightarrow> string \<Rightarrow> string \<Rightarrow> string \<Rightarrow> nat \<Rightarrow> geometry \<Rightarrow> error + geometry" where
  "phantom_axis F n1 n2 p sep i g =
     (let half_size = map (\<lambda>n. n div 2) (size_vec g) in
      then_do (getitem (size_vec g) i) (\<lambda>sz.
      then_do (getitem (spacing g) i) (\<lambda>sp.
        if sz mod 2 = 0 then
          Inr (g\<lparr>phantom_cell_surfaces := phantom_cell_surfaces g @
                   [n1 @ ''  '' @ p @ ''  '' @ fmt3f F (real_of_int (sz + 1) * sp) @ ''\<newline>'',
                    n2 @ ''  '' @ p @ ''  '' @ fmt3f F (real_of_int (- sz + 1) * sp) @ ''\<newline>''],
                 fill := fill g @ str_int (- (half_size ! i) + 1) @ '':'' @ str_int (half_size ! i) @ sep,
                 phantom_limit := phantom_limit g @ [real_of_int (sz + 1) * sp],
                 phantom_origin := phantom_origin g @ [real_of_int (- sz + 1) * sp]\<rparr>)
        else
          Inr (g\<lparr>phantom_cell_surfaces := phantom_cell_surfaces g @
                   [n1 @ ''  '' @ p @ ''  '' @ fmt3f F (real_of_int sz * sp) @ ''\<newline>'',
                    n2 @ ''  '' @ p @ ''  '' @ fmt3f F (real_of_int (- sz) * sp) @ ''\<newline>''],
                 fill := fill g @ str_int (half_size ! i) @ '':'' @ str_int (half_size ! i) @ sep,
                 phantom_limit := phantom_limit g @ [real_of_int sz * sp],
                 phantom_origin := phantom_origin g @ [real_of_int (- sz) * sp]\<rparr>))))"

definition build_phantom_cell_surfaces :: "pyfmt \<Rightarrow> geometry \<Rightarrow> error + geometry" where
  "build_phantom_cell_surfaces F g =
     then_do (phantom_axis F ''111'' ''112'' ''px'' '' '' 0
                (g\<lparr>phantom_cell_surfaces := [], phantom_origin := [], phantom_limit := [],
                   fill := ''fill=''\<rparr>)) (\<lambda>g1.
     then_do (phantom_axis F ''113'' ''114'' ''py'' '' '' 1 g1) (\<lambda>g2.
     then_do (phantom_axis F ''115'' ''116'' ''pz'' '''' 2 g2) (\<lambda>g3.
       Inr (g3\<lparr>phantom_cell_geom := ''-111 112 -113 114 -115 116''\<rparr>))))"

text \<open>
  \<^verbatim>\<open>_build_world_surface\<close>: the largest product of size and spacing over the axes,
  plus 100. It runs after the two methods above, which have read the entries 0, 1 and
  2 of both vectors, so both have three entries or more here; the elementwise product
  of two such arrays of unequal lengths does not broadcast and raises ValueError.
  \<open>world_radius\<close> is the local variable of that name.
\<close>

definition world_radius :: "geometry \<Rightarrow> error + real" where
  "world_radius g =
     (if length (size_vec g) \<noteq> length (spacing g) \<or> size_vec g = [] then Inl ValueError
      else
        let phantom_max_size =
              Max (set (map (\<lambda>(n, s). real_of_int n * s) (zip (size_vec g) (spacing g))))
        in Inr (phantom_max_size + 100))"

definition build_world_surface :: "pyfmt \<Rightarrow> geometry \<Rightarrow> error + geometry" where
  "build_world_surface F g =
     then_do (world_radius g) (\<lambda>r.
       Inr (g\<lparr>word_cell_surface := ''1000  so  '' @ str_float F r @ ''\<newline>''\<rparr>))"

text \<open>
  \<^verbatim>\<open>Geometry.__init__\<close>. \<open>geometry_start\<close> is the object after the assignments that
  precede the calls of the \<^verbatim>\<open>_build_\<close> methods. The attributes that those methods
  assign do not exist before; the model starts them empty, and every one is assigned
  before the constructor returns.
\<close>

definition geometry_start :: "ctvoxel \<Rightarrow> string list \<Rightarrow> geometry" where
  "geometry_start vx md =
     \<lparr>size_vec = size_vec vx, spacing = spacing vx, index_map = index_map vx,
      keys = keys vx, element_table = element_table vx,
      density_table = density_table vx,
      mode = join '','' md,
      base_cell_surfaces = [], base_cell_geom = [], phantom_cell_surfaces = [],
      phantom_origin = [], phantom_limit = [], fill = [], phantom_cell_geom = [],
      word_cell_surface = []\<rparr>"

definition Geometry :: "pyfmt \<Rightarrow> ctvoxel \<Rightarrow> string list \<Rightarrow> error + geometry" where
  "Geometry F vx md =
     then_do (build_base_cell_surfaces F (geometry_start vx md)) (\<lambda>g.
     then_do (build_phantom_cell_surfaces F g) (\<lambda>g.
     build_world_surface F g))"

section \<open>Writing the deck\<close>

text \<open>
  The output file is the list of the strings written to it so far, one for each call
  of \<^verbatim>\<open>file.write\<close>, in order; the text of the file is their concatenation. A
  method that writes returns the exception it raised, if any, and the file as it was
  when the method returned or raised.
\<close>

type_synonym written = "error option \<times> string list"

definition and_then :: "written \<Rightarrow> (string list \<Rightarrow> written) \<Rightarrow> written" where
  "and_then w k = (case w of (Some e, f) \<Rightarrow> (Some e, f) | (None, f) \<Rightarrow> k f)"

definition file_write :: "string \<Rightarrow> string list \<Rightarrow> written" where
  "file_write s f = (None, f @ [s])"

definition file_text :: "string list \<Rightarrow> string" where
  "file_text f = concat f"

text \<open>
  The first loop of \<^verbatim>\<open>Geometry.to_file\<close>: a cell and its complement for every
  material key. The first line is formatted before it is written, so a key without
  density raises before anything of its lines reaches the file.
\<close>

definition cells_step :: "pyfmt \<Rightarrow> geometry \<Rightarrow> int \<Rightarrow> string list \<Rightarrow> written" where
  "cells_step F g i f =
     (case density_table g i of
        None \<Rightarrow> (Some (KeyError (str_int i)), f)
      | Some d \<Rightarrow>
          and_then (file_write (str_int i @ ''  '' @ str_int i @ ''  '' @ str_scalar F d) f) (\<lambda>f.
          and_then (file_write (''  '' @ base_cell_geom g @ ''  u='' @ str_int i
                                  @ ''  imp:'' @ mode g @ ''=1\<newline>'') f) (\<lambda>f.
          file_write (''88'' @ str_int i @ ''  0  #'' @ str_int i @ ''  u='' @ str_int i
                        @ ''  imp:'' @ mode g @ ''=1\<newline>'') f)))"

primrec cells_loop :: "pyfmt \<Rightarrow> geometry \<Rightarrow> int list \<Rightarrow> string list \<Rightarrow> written" where
  "cells_loop F g [] f = (None, f)"
| "cells_loop F g (i # rest) f = and_then (cells_step F g i f) (cells_loop F g rest)"

text \<open>
  The second loop of \<^verbatim>\<open>Geometry.to_file\<close>, over the material-index volume.
  \<open>fill_step\<close> is the body of the loop for the element \<open>v\<close>: \<open>accumulator\<close> is the
  running count, which starts at 1, and \<open>n\<close> the value of \<^verbatim>\<open>np.prod(self.size)\<close>.
  In \<open>fill_loop\<close>, \<open>vs\<close> are the elements that the iterator has not visited yet.
\<close>

definition fill_step :: "32 word \<Rightarrow> int \<Rightarrow> int \<Rightarrow> string list \<Rightarrow> string list" where
  "fill_step v accumulator n f =
     (let f = f @ ['' '' @ str_nat (unat v)] in
      if accumulator mod 20 = 0 \<and> accumulator \<noteq> n then f @ [''\<newline>    '']
      else if accumulator mod 20 = 0 \<and> accumulator = n then f @ [''\<newline>'']
      else if accumulator = n then f @ [''\<newline>'']
      else f)"

primrec fill_loop :: "32 word list \<Rightarrow> int \<Rightarrow> int \<Rightarrow> string list \<Rightarrow> string list" where
  "fill_loop [] accumulator n f = f"
| "fill_loop (v # vs) accumulator n f = fill_loop vs (accumulator + 1) n (fill_step v accumulator n f)"

text \<open>\<^verbatim>\<open>Geometry.to_file\<close>.\<close>

definition Geometry_to_file :: "pyfmt \<Rightarrow> geometry \<Rightarrow> string list \<Rightarrow> written" where
  "Geometry_to_file F g f =
     and_then (cells_loop F g (keys g) f) (\<lambda>f.
     and_then (file_write (''998  0  '' @ base_cell_geom g @ '' u=999 imp:'' @ mode g @ ''=1\<newline>'') f) (\<lambda>f.
     and_then (file_write (''     lat=1  '' @ fill g @ ''\<newline>    '') f) (\<lambda>f.
     and_then (None, fill_loop (data (index_map g)) 1 (prod_list (size_vec g)) f) (\<lambda>f.
     and_then (file_write (''999  0  '' @ phantom_cell_geom g @ ''  fill=999 imp:'' @ mode g @ ''=1\<newline>'') f) (\<lambda>f.
     and_then (file_write (''1000  1  -0.00129  -1000 #999 imp:'' @ mode g @ ''=1\<newline>'') f) (\<lambda>f.
     and_then (file_write (''9999  0  1000  imp:'' @ mode g @ ''=0\<newline>'') f) (\<lambda>f.
     and_then (file_write ''\<newline>'' f) (\<lambda>f.
     and_then (None, f @ base_cell_surfaces g) (\<lambda>f.
     and_then (None, f @ phantom_cell_surfaces g) (\<lambda>f.
     file_write (word_cell_surface g) f))))))))))"

text \<open>\<^verbatim>\<open>Material\<close>: one header line per material and one string with a line per nuclide.\<close>

definition parse_elements_dict :: "pyfmt \<Rightarrow> (scalar \<times> scalar) list \<Rightarrow> string" where
  "parse_elements_dict F elements =
     fold (\<lambda>(nucleon, fraction) string.
             string @ ''     '' @ str_scalar F nucleon @ '' '' @ str_scalar F fraction @ ''\<newline>'')
       elements ''''"

definition Material_to_file ::
  "pyfmt \<Rightarrow> (int \<times> (scalar \<times> scalar) list) list \<Rightarrow> string list \<Rightarrow> written" where
  "Material_to_file F table f =
     (None, fold (\<lambda>(index, elements) f.
                    f @ [''M'' @ str_int index @ ''\<newline>'', parse_elements_dict F elements])
              table f)"

text \<open>
  \<^verbatim>\<open>Source\<close>. A value of the source configuration is a dictionary, of which the
  constructor reads the keys \<^verbatim>\<open>si\<close> and \<^verbatim>\<open>sp\<close> (\<open>None\<close>: the key is missing), or
  something else, printed by \<^verbatim>\<open>_list_to_str\<close>. Of the attributes of the object,
  \<open>si_sp_str\<close> and \<open>si_sp_id\<close> are assigned only after the constructor's early return:
  \<open>None\<close> is an attribute that the object does not have.
\<close>

datatype source_value = Dist "scalar list option" "scalar list option" | Plain cfgval

type_synonym source_config = "(string \<times> source_value) list"

record source =
  source_str :: string
  si_sp_str :: "string option"
  si_sp_id :: "nat option"

definition parse_si_sp :: "pyfmt \<Rightarrow> nat \<Rightarrow> scalar list \<Rightarrow> scalar list \<Rightarrow> string" where
  "parse_si_sp F ident si sp =
     fold (\<lambda>(i, p) s. s @ ''     '' @ str_scalar F i @ ''     '' @ str_scalar F p @ ''\<newline>'')
       (zip si sp)
       (''#     SI'' @ str_nat ident @ ''     SP'' @ str_nat ident @ ''\<newline>'')"

text \<open>
  The body of the constructor's loop, on the three attributes \<open>source_str\<close>,
  \<open>si_sp_str\<close> and \<open>si_sp_id\<close>, and the loop.
\<close>

definition source_step ::
  "pyfmt \<Rightarrow> string \<Rightarrow> source_value \<Rightarrow> string \<times> string \<times> nat \<Rightarrow> error + string \<times> string \<times> nat" where
  "source_step F key v st =
     (case st of (src, sisp, ident) \<Rightarrow>
      (case v of
         Dist si sp \<Rightarrow>
           (let ident = ident + 1;
                src = src @ ''     '' @ key @ ''=D'' @ str_nat ident @ ''\<newline>''
            in case si of None \<Rightarrow> Inl (KeyError ''si'') | Some si \<Rightarrow>
              (case sp of None \<Rightarrow> Inl (KeyError ''sp'') | Some sp \<Rightarrow>
                 Inr (src, sisp @ parse_si_sp F ident si sp, ident)))
       | Plain x \<Rightarrow> Inr (src @ ''     '' @ key @ ''='' @ list_to_str F x @ ''\<newline>'', sisp, ident)))"

primrec source_loop ::
  "pyfmt \<Rightarrow> source_config \<Rightarrow> string \<times> string \<times> nat \<Rightarrow> error + string \<times> string \<times> nat" where
  "source_loop F [] st = Inr st"
| "source_loop F (kv # rest) st = then_do (source_step F (fst kv) (snd kv) st) (source_loop F rest)"

definition Source :: "pyfmt \<Rightarrow> source_config option \<Rightarrow> error + source" where
  "Source F source_config =
     (case source_config of
        None \<Rightarrow> Inr \<lparr>source_str = ''SDEF\<newline>'', si_sp_str = None, si_sp_id = None\<rparr>
      | Some items \<Rightarrow>
          then_do (source_loop F items (''SDEF\<newline>'', '''', 0)) (\<lambda>(src, sisp, ident).
            Inr \<lparr>source_str = src, si_sp_str = Some sisp, si_sp_id = Some ident\<rparr>))"

definition Source_to_file :: "source \<Rightarrow> string list \<Rightarrow> written" where
  "Source_to_file s f =
     and_then (file_write (source_str s) f) (\<lambda>f.
       case si_sp_str s of
         None \<Rightarrow> (Some (AttributeError ''si_sp_str''), f)
       | Some sisp \<Rightarrow> file_write sisp f)"

text \<open>
  \<^verbatim>\<open>Tally\<close>. An entry of the tally configuration is a dictionary of which the writer
  reads the keys \<^verbatim>\<open>particle\<close>, \<^verbatim>\<open>de\<close>, \<^verbatim>\<open>df\<close> and \<^verbatim>\<open>fm\<close> (\<open>None\<close>: the key is
  missing). The attributes of the object other than \<open>config\<close> are assigned after the
  constructor's early return, as in \<^verbatim>\<open>Source\<close>; \<open>t_size\<close> is the attribute
  \<^verbatim>\<open>size\<close>.
\<close>

record tally_entry =
  particle :: "scalar option"
  de :: "scalar list option"
  df :: "scalar list option"
  fm :: "cfgval option"

type_synonym tally_config = "(string \<times> tally_entry) list"

record tally =
  config :: "tally_config option"
  mode_card :: "string option"
  t_size :: "int list option"
  mesh_origin :: "real list option"
  mesh_limit :: "real list option"

definition Tally :: "geometry \<Rightarrow> string list \<Rightarrow> tally_config option \<Rightarrow> tally" where
  "Tally geom md tally_config =
     (case tally_config of
        None \<Rightarrow> \<lparr>config = None, mode_card = None, t_size = None, mesh_origin = None,
                 mesh_limit = None\<rparr>
      | Some c \<Rightarrow> \<lparr>config = Some c, mode_card = Some (''mode '' @ join '' '' md),
                   t_size = Some (size_vec geom), mesh_origin = Some (phantom_origin geom),
                   mesh_limit = Some (phantom_limit geom)\<rparr>)"

definition parse_de_df :: "pyfmt \<Rightarrow> scalar list \<Rightarrow> scalar list \<Rightarrow> string \<Rightarrow> string" where
  "parse_de_df F des dfs ident =
     fold (\<lambda>(e, f) s. s @ ''     '' @ str_scalar F e @ ''     '' @ str_scalar F f @ ''\<newline>'')
       (zip des dfs)
       (''#     DE'' @ ident @ ''     DF'' @ ident @ ''\<newline>'')"

text \<open>Reading an attribute that may not have been assigned.\<close>

definition getattr :: "string \<Rightarrow> 'a option \<Rightarrow> error + 'a" where
  "getattr name a = (case a of None \<Rightarrow> Inl (AttributeError name) | Some x \<Rightarrow> Inr x)"

text \<open>
  The four lines of one mesh tally. Each is formatted before it is written: the first
  needs \<^verbatim>\<open>value['particle']\<close> and three entries of \<open>mesh_origin\<close>, the others an entry
  of \<open>mesh_limit\<close> and of \<open>size\<close>.
\<close>

definition fmesh_line :: "pyfmt \<Rightarrow> tally \<Rightarrow> string \<Rightarrow> tally_entry \<Rightarrow> error + string" where
  "fmesh_line F t ident v =
     (case particle v of None \<Rightarrow> Inl (KeyError ''particle'') | Some p \<Rightarrow>
        then_do (getattr ''mesh_origin'' (mesh_origin t)) (\<lambda>origin.
        then_do (getitem origin 0) (\<lambda>o0.
        then_do (getitem origin 1) (\<lambda>o1.
        then_do (getitem origin 2) (\<lambda>o2.
          Inr (''fmesh'' @ ident @ ''4:'' @ str_scalar F p @ '' geom=XYZ origin='' @ fmt3f F o0
                 @ '' '' @ fmt3f F o1 @ '' '' @ fmt3f F o2 @ ''\<newline>''))))))"

definition mesh_line :: "pyfmt \<Rightarrow> tally \<Rightarrow> string \<Rightarrow> string \<Rightarrow> nat \<Rightarrow> error + string" where
  "mesh_line F t mesh ints k =
     then_do (getattr ''mesh_limit'' (mesh_limit t)) (\<lambda>limit.
     then_do (getitem limit k) (\<lambda>l.
     then_do (getattr ''size'' (t_size t)) (\<lambda>sz.
     then_do (getitem sz k) (\<lambda>n.
       Inr (''     '' @ mesh @ ''='' @ fmt3f F l @ '' '' @ ints @ ''='' @ str_int n @ ''\<newline>'')))))"

definition write_line :: "error + string \<Rightarrow> string list \<Rightarrow> written" where
  "write_line line f = (case line of Inl e \<Rightarrow> (Some e, f) | Inr s \<Rightarrow> file_write s f)"

text \<open>The body of the loop of \<^verbatim>\<open>Tally.to_file\<close> for the entry \<open>v\<close> under the key \<open>ident\<close>.\<close>

definition tally_step :: "pyfmt \<Rightarrow> tally \<Rightarrow> string \<Rightarrow> tally_entry \<Rightarrow> string list \<Rightarrow> written" where
  "tally_step F t ident v f =
     and_then (write_line (fmesh_line F t ident v) f) (\<lambda>f.
     and_then (write_line (mesh_line F t ''imesh'' ''iints'' 0) f) (\<lambda>f.
     and_then (write_line (mesh_line F t ''jmesh'' ''jints'' 1) f) (\<lambda>f.
     and_then (write_line (mesh_line F t ''kmesh'' ''kints'' 2) f) (\<lambda>f.
     and_then (if de v \<noteq> None \<and> df v \<noteq> None
               then file_write (parse_de_df F (the (de v)) (the (df v)) (ident @ ''4'')) f
               else (None, f)) (\<lambda>f.
       if fm v \<noteq> None
       then file_write (''FM'' @ ident @ ''4  '' @ list_to_str F (the (fm v)) @ ''\<newline>'') f
       else (None, f))))))"

primrec tally_loop :: "pyfmt \<Rightarrow> tally \<Rightarrow> tally_config \<Rightarrow> string list \<Rightarrow> written" where
  "tally_loop F t [] f = (None, f)"
| "tally_loop F t (kv # rest) f = and_then (tally_step F t (fst kv) (snd kv) f) (tally_loop F t rest)"

definition Tally_to_file :: "pyfmt \<Rightarrow> tally \<Rightarrow> string list \<Rightarrow> written" where
  "Tally_to_file F t f =
     (case config t of None \<Rightarrow> (None, f) | Some items \<Rightarrow> tally_loop F t items f)"

text \<open>\<^verbatim>\<open>OutControl\<close>: one line per key of its configuration, nothing without one.\<close>

definition OutControl :: "pyfmt \<Rightarrow> (string \<times> cfgval) list option \<Rightarrow> string" where
  "OutControl F control_config =
     (case control_config of
        None \<Rightarrow> ''''
      | Some items \<Rightarrow>
          fold (\<lambda>(key, v) control_str. control_str @ key @ '' '' @ list_to_str F v @ ''\<newline>'')
            items '''')"

section \<open>The deck assembler\<close>

text \<open>
  The run configuration is a dictionary. The generator looks at five of its keys; in
  the model each is a field, \<open>None\<close> when the dictionary does not have the key. The
  value under \<^verbatim>\<open>source\<close>, \<^verbatim>\<open>tally\<close> or \<^verbatim>\<open>outcontrol\<close> is a dictionary or, once
  \<^verbatim>\<open>init_MC_module\<close> has put it there, Python's \<^verbatim>\<open>None\<close>: the inner \<open>None\<close>.
\<close>

record run_config =
  cfg_material :: "material_config option"
  cfg_mode :: "string list option"
  cfg_source :: "source_config option option"
  cfg_tally :: "tally_config option option"
  cfg_outcontrol :: "(string \<times> cfgval) list option option"

definition config_keys :: "run_config \<Rightarrow> string list" where
  "config_keys c =
     (if cfg_material c \<noteq> None then [''material''] else []) @
     (if cfg_mode c \<noteq> None then [''mode''] else []) @
     (if cfg_source c \<noteq> None then [''source''] else []) @
     (if cfg_tally c \<noteq> None then [''tally''] else []) @
     (if cfg_outcontrol c \<noteq> None then [''outcontrol''] else [])"

text \<open>\<^verbatim>\<open>self.config[key]\<close>: KeyError without the key.\<close>

definition config_get :: "string \<Rightarrow> 'a option \<Rightarrow> error + 'a" where
  "config_get key field = (case field of None \<Rightarrow> Inl (KeyError key) | Some x \<Rightarrow> Inr x)"

text \<open>
  The loop of \<^verbatim>\<open>init_MC_module\<close> over the three optional cards: a card that is not
  a key of the configuration becomes a key with the value \<^verbatim>\<open>None\<close>.
\<close>

definition default_cards :: "run_config \<Rightarrow> run_config" where
  "default_cards c =
     (let c = (if ''source'' \<notin> set (config_keys c) then c\<lparr>cfg_source := Some None\<rparr> else c);
          c = (if ''tally'' \<notin> set (config_keys c) then c\<lparr>cfg_tally := Some None\<rparr> else c);
          c = (if ''outcontrol'' \<notin> set (config_keys c) then c\<lparr>cfg_outcontrol := Some None\<rparr> else c)
      in c)"

text \<open>The attributes of an \<^verbatim>\<open>MCNPGenerator\<close> after \<^verbatim>\<open>init_MC_module\<close>.\<close>

record generator =
  gen_config :: run_config
  voxel :: ctvoxel
  material :: "(int \<times> (scalar \<times> scalar) list) list"
  geom :: geometry
  gen_source :: source
  gen_tally :: tally
  out :: string

definition init_MC_module :: "pyfmt \<Rightarrow> image \<Rightarrow> run_config \<Rightarrow> error + generator" where
  "init_MC_module F ct c =
     (if \<not> (''material'' \<in> set (config_keys c) \<and> ''mode'' \<in> set (config_keys c))
        then Inl AssertionError
      else
        let c = default_cards c in
        then_do (config_get ''material'' (cfg_material c)) (\<lambda>m.
        then_do (CTVoxel ct m) (\<lambda>vx.
        then_do (config_get ''mode'' (cfg_mode c)) (\<lambda>md.
        then_do (Geometry F vx md) (\<lambda>gm.
        then_do (config_get ''source'' (cfg_source c)) (\<lambda>sc.
        then_do (Source F sc) (\<lambda>src.
        then_do (config_get ''mode'' (cfg_mode c)) (\<lambda>md.
        then_do (config_get ''tally'' (cfg_tally c)) (\<lambda>tc.
        then_do (config_get ''outcontrol'' (cfg_outcontrol c)) (\<lambda>oc.
          Inr \<lparr>gen_config = c, voxel = vx, material = element_table vx, geom = gm,
               gen_source = src, gen_tally = Tally gm md tc, out = OutControl F oc\<rparr>))))))))))"

text \<open>
  \<^verbatim>\<open>MCNPGenerator.to_file\<close>: the file is opened for writing, which empties it, and
  closed when the block is left, also by an exception. Opening the file is taken to
  succeed.
\<close>

definition to_file :: "pyfmt \<Rightarrow> generator \<Rightarrow> written" where
  "to_file F gen =
     and_then (file_write ''c Geometry\<newline>'' []) (\<lambda>f.
     and_then (Geometry_to_file F (geom gen) f) (\<lambda>f.
     and_then (file_write ''\<newline>'' f) (\<lambda>f.
     and_then (file_write ''c Data\<newline>'' f) (\<lambda>f.
     and_then (Material_to_file F (material gen) f) (\<lambda>f.
     and_then (Source_to_file (gen_source gen) f) (\<lambda>f.
     and_then (Tally_to_file F (gen_tally gen) f) (\<lambda>f.
     and_then (file_write (out gen) f) (\<lambda>f.
     file_write ''\<newline>'' f))))))))"

text \<open>
  \<^verbatim>\<open>MCNPGenerator.run\<close>: the exception raised, if any, and what has become of the
  output file: \<open>None\<close> when it was never opened, otherwise what was written to it.
\<close>

definition run :: "pyfmt \<Rightarrow> image \<Rightarrow> run_config \<Rightarrow> error option \<times> string list option" where
  "run F ct c =
     (case init_MC_module F ct c of
        Inl e \<Rightarrow> (Some e, None)
      | Inr gen \<Rightarrow> (case to_file F gen of (r, f) \<Rightarrow> (r, Some f)))"

section \<open>Reading the fill list back\<close>

text \<open>
  The reader that the specification's round trip uses, in the specification's words:
  the text is split at runs of whitespace (Python's \<^verbatim>\<open>str.split()\<close>; the whitespace
  characters below code 256) and every piece is read as a decimal number.
\<close>

definition is_space :: "char \<Rightarrow> bool" where
  "is_space c = (of_char c \<in> set [9, 10, 11, 12, 13, 28, 29, 30, 31, 32, 133, 160 :: nat])"

fun split_from :: "string \<Rightarrow> string \<Rightarrow> string list" where
  "split_from cur [] = (if cur = [] then [] else [cur])"
| "split_from cur (c # cs) =
     (if is_space c then (if cur = [] then split_from [] cs else cur # split_from [] cs)
      else split_from (cur @ [c]) cs)"

definition split_whitespace :: "string \<Rightarrow> string list" where
  "split_whitespace s = split_from [] s"

definition is_digit :: "char \<Rightarrow> bool" where
  "is_digit c = (48 \<le> (of_char c :: nat) \<and> (of_char c :: nat) \<le> 57)"

definition parse_nat :: "string \<Rightarrow> nat option" where
  "parse_nat s =
     (if s \<noteq> [] \<and> list_all is_digit s
      then Some (fold (\<lambda>c n. 10 * n + (of_char c - 48)) s 0) else None)"

definition parse_fill_list :: "string \<Rightarrow> nat option list" where
  "parse_fill_list text = map parse_nat (split_whitespace text)"

text \<open>
  The text of the fill list in the deck: the four blanks that end the line of the
  lattice card, and what the loop over the volume writes.
\<close>

definition fill_list_text :: "geometry \<Rightarrow> string" where
  "fill_list_text g =
     ''    '' @ file_text (fill_loop (data (index_map g)) 1 (prod_list (size_vec g)) [])"

section \<open>A printer of floats for the examples\<close>

text \<open>
  The theorems below hold for every way of printing floats. The examples need one:
  this one prints with a fixed number of decimals, as Python does for the numbers of
  the examples.
\<close>

definition fixed_decimals :: "nat \<Rightarrow> real \<Rightarrow> string" where
  "fixed_decimals k x =
     (let n = rint (x * 10 ^ k); m = nat \<bar>n\<bar>;
          frac = str_nat (m mod 10 ^ k)
      in (if n < 0 then ''-'' else '''') @ str_nat (m div 10 ^ k) @ ''.''
           @ replicate (k - length frac) CHR ''0'' @ frac)"

definition example_fmt :: pyfmt where
  "example_fmt = \<lparr>fmt3f = fixed_decimals 3, str_float = fixed_decimals 1\<rparr>"

section \<open>Inputs of the examples\<close>

text \<open>
  A \<^verbatim>\<open>Geometry\<close> object as the constructor starts it, from a size vector, a spacing
  vector and the elements of a material-index volume, with one material key.
\<close>

definition geometry_of :: "int list \<Rightarrow> real list \<Rightarrow> 32 word list \<Rightarrow> geometry" where
  "geometry_of sz sp vs =
     \<lparr>size_vec = sz, spacing = sp, index_map = \<lparr>shape = rev (map nat sz), data = vs\<rparr>,
      keys = [1], element_table = [], density_table = [1 \<mapsto> PyFloat 1],
      mode = ''p'',
      base_cell_surfaces = [], base_cell_geom = [], phantom_cell_surfaces = [],
      phantom_origin = [], phantom_limit = [], fill = [], phantom_cell_geom = [],
      word_cell_surface = []\<rparr>"

text \<open>
  An image of 2 by 2 by 2 voxels with a spacing of 20 (which the classifier divides by
  20), and two materials whose intervals give the boundaries -1000, 0 and 3000.
\<close>

definition image_222 :: image where
  "image_222 = \<lparr>img_size = [2, 2, 2], img_spacing = [20, 20, 20],
                 img_buffer = [-1500, -500, 500, 2000, 5000, 0, -1000, 3000]\<rparr>"

definition material_two :: material_config where
  "material_two =
     [(Some 1, \<lparr>m_hu_interval = Some [-1000, 0], m_nucleon = Some [PyInt 1001, PyInt 8016],
           m_fraction = Some [PyInt 2, PyInt 1], m_density = Some (PyInt (-1))\<rparr>),
      (Some 2, \<lparr>m_hu_interval = Some [0, 3000], m_nucleon = Some [PyInt 20040],
           m_fraction = Some [PyInt 1], m_density = Some (PyInt (-2))\<rparr>)]"

text \<open>
  Further images: one whose voxel counts differ along the axes, one with a wide and
  one with a narrow spacing, and one of two dimensions.
\<close>

definition image_123 :: image where
  "image_123 = \<lparr>img_size = [1, 2, 3], img_spacing = [20, 20, 20],
                 img_buffer = [-1500, -500, 500, 2000, 5000, 0]\<rparr>"

definition image_wide :: image where
  "image_wide = \<lparr>img_size = [2, 2, 2], img_spacing = [2020, 2020, 2020],
                  img_buffer = [-1500, -500, 500, 2000, 5000, 0, -1000, 3000]\<rparr>"

definition image_thin :: image where
  "image_thin = \<lparr>img_size = [2, 2, 2], img_spacing = [0.004, 20, 20],
                  img_buffer = [-1500, -500, 500, 2000, 5000, 0, -1000, 3000]\<rparr>"

definition image_2d :: image where
  "image_2d = \<lparr>img_size = [2, 2], img_spacing = [20, 20], img_buffer = [-1500, -500, 500, 2000]\<rparr>"

text \<open>
  A tally entry with an energy-response table, and the tally object that the
  constructor builds from it for the image of 2 by 2 by 2 voxels.
\<close>

definition entry_de_df :: tally_entry where
  "entry_de_df = \<lparr>particle = Some (PyStr ''p''), de = Some [PyInt 1, PyInt 2],
                    df = Some [PyInt 3, PyInt 4], fm = None\<rparr>"

definition tally_222 :: tally where
  "tally_222 = \<lparr>config = Some [(''1'', entry_de_df)], mode_card = Some ''mode p'', t_size = Some [2, 2, 2],
                  mesh_origin = Some [-1, -1, -1], mesh_limit = Some [3, 3, 3]\<rparr>"

text \<open>
  Further tally configurations: the entry of above followed by the same entry without
  the key \<^verbatim>\<open>df\<close>; and an entry with both tables but without the key \<^verbatim>\<open>particle\<close>,
  followed by the complete entry.
\<close>

definition entry_no_particle :: tally_entry where
  "entry_no_particle = \<lparr>particle = None, de = Some [PyInt 1, PyInt 2],
                          df = Some [PyInt 3, PyInt 4], fm = None\<rparr>"

definition tally_config_two :: tally_config where
  "tally_config_two = [(''1'', entry_de_df), (''2'', entry_de_df\<lparr>df := None\<rparr>)]"

definition tally_config_no_particle :: tally_config where
  "tally_config_no_particle = [(''1'', entry_no_particle), (''2'', entry_de_df)]"

text \<open>
  Run configurations: one with the two mandatory keys only and one without the key
  \<^verbatim>\<open>mode\<close>; one with a single material whose interval has three boundaries, and
  a source section without entries; one whose material has no density.
\<close>

definition config_minimal :: run_config where
  "config_minimal = \<lparr>cfg_material = Some material_two, cfg_mode = Some [''p''],
                      cfg_source = None, cfg_tally = None, cfg_outcontrol = None\<rparr>"

definition config_no_mode :: run_config where
  "config_no_mode = \<lparr>cfg_material = Some material_two, cfg_mode = None,
                      cfg_source = None, cfg_tally = None, cfg_outcontrol = None\<rparr>"

definition material_one :: material_config where
  "material_one =
     [(Some 1, \<lparr>m_hu_interval = Some [-1000, 0, 3000], m_nucleon = Some [PyInt 1001, PyInt 8016],
           m_fraction = Some [PyInt 2, PyInt 1], m_density = Some (PyInt (-1))\<rparr>)]"

definition config_one :: run_config where
  "config_one = \<lparr>cfg_material = Some material_one, cfg_mode = Some [''p''],
                  cfg_source = Some (Some []), cfg_tally = None, cfg_outcontrol = None\<rparr>"

definition material_no_density :: material_config where
  "material_no_density =
     [(Some 1, \<lparr>m_hu_interval = Some [-1000, 0, 3000], m_nucleon = Some [PyInt 1001, PyInt 8016],
           m_fraction = Some [PyInt 2, PyInt 1], m_density = None\<rparr>)]"

definition config_no_density :: run_config where
  "config_no_density = \<lparr>cfg_material = Some material_no_density, cfg_mode = Some [''p''],
                      cfg_source = None, cfg_tally = None, cfg_outcontrol = None\<rparr>"

section \<open>Printing and reading numbers\<close>

lemma digit_char_props:
  "d < 10 \<Longrightarrow> is_digit (digit_char d) \<and> of_char (digit_char d) - 48 = d \<and> \<not> is_space (digit_char d)"
proof -
  assume "d < 10"
  then have "d = 0 \<or> d = 1 \<or> d = 2 \<or> d = 3 \<or> d = 4 \<or> d = 5 \<or> d = 6 \<or> d = 7 \<or> d = 8 \<or> d = 9"
    by presburger
  then show ?thesis
    by (elim disjE) (simp_all add: digit_char_def is_digit_def is_space_def)
qed

lemma str_nat_digits: "list_all is_digit (str_nat n) \<and> str_nat n \<noteq> []"
proof (induction n rule: str_nat.induct)
  case (1 n)
  show ?case
  proof (cases "n < 10")
    case True
    then show ?thesis using digit_char_props[of n] by (simp add: str_nat.simps[of n])
  next
    case False
    then show ?thesis using 1 digit_char_props[of "n mod 10"] by (simp add: str_nat.simps[of n])
  qed
qed

lemma fold_str_nat: "fold (\<lambda>c n. 10 * n + (of_char c - 48)) (str_nat n) 0 = n"
proof (induction n rule: str_nat.induct)
  case (1 n)
  show ?case
  proof (cases "n < 10")
    case True
    then show ?thesis using digit_char_props[of n] by (simp add: str_nat.simps[of n])
  next
    case False
    then have "fold (\<lambda>c n. 10 * n + (of_char c - 48)) (str_nat n) 0 = 10 * (n div 10) + n mod 10"
      using 1 digit_char_props[of "n mod 10"] by (simp add: str_nat.simps[of n])
    then show ?thesis by simp
  qed
qed

lemma parse_nat_str_nat: "parse_nat (str_nat n) = Some n"
  using str_nat_digits[of n] by (simp add: parse_nat_def fold_str_nat)

lemma is_digit_not_space: "is_digit c \<Longrightarrow> \<not> is_space c"
  by (auto simp: is_digit_def is_space_def)

subsection \<open>Splitting at whitespace\<close>

lemma split_from_token:
  "list_all (\<lambda>c. \<not> is_space c) tok \<Longrightarrow> split_from cur (tok @ r) = split_from (cur @ tok) r"
  by (induction tok arbitrary: cur) auto

lemma split_from_spaces: "list_all is_space s \<Longrightarrow> split_from [] (s @ r) = split_from [] r"
  by (induction s) auto

lemma split_from_flush:
  "tok \<noteq> [] \<Longrightarrow> r = [] \<or> is_space (hd r) \<Longrightarrow> split_from tok r = tok # split_from [] r"
  by (cases r) auto

section \<open>The fill list\<close>

lemma fill_step_append: "fill_step v acc n f = f @ fill_step v acc n []"
  by (simp add: fill_step_def Let_def)

lemma fill_loop_append: "fill_loop vs acc n f = f @ fill_loop vs acc n []"
proof (induction vs arbitrary: acc f)
  case Nil
  show ?case by simp
next
  case (Cons v vs)
  have "fill_loop (v # vs) acc n f = fill_step v acc n f @ fill_loop vs (acc + 1) n []"
    using Cons.IH[of "acc + 1" "fill_step v acc n f"] by simp
  also have "\<dots> = f @ fill_step v acc n [] @ fill_loop vs (acc + 1) n []"
    using fill_step_append[of v acc n f] by simp
  also have "\<dots> = f @ fill_loop (v # vs) acc n []"
    using Cons.IH[of "acc + 1" "fill_step v acc n []"] by simp
  finally show ?case .
qed

text \<open>
  One pass of the loop writes a blank, the number, and then nothing, a newline, or a
  newline and four blanks: whitespace in every case.
\<close>

lemma fill_step_text:
  "\<exists>sep. list_all is_space sep \<and> concat (fill_step v acc n []) = CHR '' '' # str_nat (unat v) @ sep"
  by (simp add: fill_step_def Let_def is_space_def)

lemma split_fill_loop:
  "split_from [] (concat (fill_loop vs acc n [])) = map (\<lambda>v. str_nat (unat v)) vs
   \<and> (concat (fill_loop vs acc n []) = [] \<or> is_space (hd (concat (fill_loop vs acc n []))))"
proof (induction vs arbitrary: acc)
  case Nil
  show ?case by simp
next
  case (Cons v vs)
  let ?R = "concat (fill_loop vs (acc + 1) n [])"
  let ?tok = "str_nat (unat v)"
  obtain sep where sep: "list_all is_space sep"
    and step: "concat (fill_step v acc n []) = CHR '' '' # ?tok @ sep"
    using fill_step_text by blast
  have whole: "concat (fill_loop (v # vs) acc n []) = CHR '' '' # ?tok @ sep @ ?R"
    using fill_loop_append[of vs "acc + 1" n "fill_step v acc n []"] step by simp
  have tok: "list_all (\<lambda>c. \<not> is_space c) ?tok" "?tok \<noteq> []"
    using str_nat_digits[of "unat v"] by (auto simp: list_all_iff is_digit_not_space)
  have rest: "sep @ ?R = [] \<or> is_space (hd (sep @ ?R))"
    using sep Cons.IH[of "acc + 1"] by (cases sep) auto
  have "split_from [] (CHR '' '' # ?tok @ sep @ ?R) = split_from [] (?tok @ sep @ ?R)"
    by (simp add: is_space_def)
  also have "\<dots> = split_from ?tok (sep @ ?R)"
    using split_from_token[OF tok(1), of "[]" "sep @ ?R"] by simp
  also have "\<dots> = ?tok # split_from [] (sep @ ?R)"
    using split_from_flush[OF tok(2) rest] .
  also have "\<dots> = ?tok # split_from [] ?R"
    using split_from_spaces[OF sep] by simp
  finally show ?case
    using Cons.IH[of "acc + 1"] whole by (simp add: is_space_def)
qed

text \<open>
  Claim C3. Whatever the material-index volume and the size vector of a geometry are,
  reading the text of its fill list back (splitting it at whitespace, line breaks
  included, and reading every piece as a decimal number) gives the elements of the
  volume in its iteration order, each read successfully.
\<close>

theorem fill_list_round_trip:
  "parse_fill_list (fill_list_text g) = map (\<lambda>v. Some (unat v)) (data (index_map g))"
proof -
  let ?vs = "data (index_map g)"
  let ?body = "concat (fill_loop ?vs 1 (prod_list (size_vec g)) [])"
  have "list_all is_space ''    ''" by (simp add: is_space_def)
  then have "split_from [] (''    '' @ ?body) = split_from [] ?body"
    by (rule split_from_spaces)
  then have "split_whitespace (fill_list_text g) = map (\<lambda>v. str_nat (unat v)) ?vs"
    using split_fill_loop[of ?vs 1 "prod_list (size_vec g)"]
    by (simp add: split_whitespace_def fill_list_text_def file_text_def)
  then show ?thesis
    by (simp add: parse_fill_list_def parse_nat_str_nat)
qed

text \<open>The round trip on a volume of 21 voxels, whose fill list wraps after 20 numbers.\<close>

theorem fill_list_round_trip_witness:
  "parse_fill_list (fill_list_text (geometry_of [21, 1, 1] [1, 1, 1] (replicate 20 1 @ [12])))
     = replicate 20 (Some 1) @ [Some 12]"
  using fill_list_round_trip [of "geometry_of [21, 1, 1] [1, 1, 1] (replicate 20 1 @ [12])"]
  by (simp add: geometry_of_def)

section \<open>The phantom box\<close>

text \<open>What one block of \<^verbatim>\<open>_build_phantom_cell_surfaces\<close> appends to the fill string.\<close>

lemma phantom_axis_fill:
  assumes "phantom_axis F n1 n2 p sep i g = Inr g'"
  shows "fill g' = fill g @
           (if size_vec g ! i mod 2 = 0 then str_int (- (size_vec g ! i div 2) + 1)
            else str_int (size_vec g ! i div 2))
           @ '':'' @ str_int (size_vec g ! i div 2) @ sep"
  using assms
  by (auto simp: phantom_axis_def then_do_def getitem_def Let_def split: if_splits)

text \<open>
  Claim C1. For an axis with an even voxel count the range in the fill string is
  \<open>-half+1:half\<close>, as the lemma above shows; for an odd count the claim asks for
  \<open>-half:half\<close>. The method writes \<open>half:half\<close> instead: with three voxels along
  every axis the fill string is \<^verbatim>\<open>fill=1:1 1:1 1:1\<close>, not \<^verbatim>\<open>fill=-1:1 -1:1 -1:1\<close>.
\<close>

theorem odd_axis_fill_range:
  "map_sum id fill (build_phantom_cell_surfaces example_fmt (geometry_of [3, 3, 3] [1, 1, 1] (replicate 27 1)))
     = Inr ''fill=1:1 1:1 1:1''"
  by (simp add: geometry_of_def build_phantom_cell_surfaces_def phantom_axis_def then_do_def
      getitem_def str_int_def str_nat.simps digit_char_def)

section \<open>Classification\<close>

lemma fold_min_Min: "xs \<noteq> [] \<Longrightarrow> fold min (tl xs) (hd xs) = Min (set xs)"
  by (cases xs) (simp_all add: Min.set_eq_fold[symmetric])

lemma fold_max_Max: "xs \<noteq> [] \<Longrightarrow> fold max (tl xs) (hd xs) = Max (set xs)"
  by (cases xs) (simp_all add: Max.set_eq_fold[symmetric])

lemma bisect_loop_stop: "\<not> lo < hi \<Longrightarrow> bisect_loop a x lo hi = lo"
  by (subst bisect_loop.simps) simp

lemma bisect_loop_right:
  "lo < hi \<Longrightarrow> a ! ((lo + hi) div 2) < x
   \<Longrightarrow> bisect_loop a x lo hi = bisect_loop a x ((lo + hi) div 2 + 1) hi"
  by (subst bisect_loop.simps) (simp add: Let_def)

lemma bisect_loop_left:
  "lo < hi \<Longrightarrow> \<not> a ! ((lo + hi) div 2) < x
   \<Longrightarrow> bisect_loop a x lo hi = bisect_loop a x lo ((lo + hi) div 2)"
  by (subst bisect_loop.simps) (simp add: Let_def)

lemma bisect_loop_bounds: "lo \<le> hi \<Longrightarrow> lo \<le> bisect_loop a x lo hi \<and> bisect_loop a x lo hi \<le> hi"
proof (induction a x lo hi rule: bisect_loop.induct)
  case (1 a x lo hi)
  show ?case
  proof (cases "lo < hi")
    case False
    then show ?thesis using 1(3) by (simp add: bisect_loop_stop)
  next
    case True
    let ?mid = "(lo + hi) div 2"
    have m: "lo \<le> ?mid" "?mid < hi" using True by auto
    show ?thesis
    proof (cases "a ! ?mid < x")
      case lt: True
      have "?mid + 1 \<le> hi" using m by simp
      then show ?thesis
        using 1(1)[of ?mid] True lt m by (simp add: bisect_loop_right)
    next
      case ge: False
      show ?thesis
        using 1(2)[of ?mid] True ge m by (simp add: bisect_loop_left)
    qed
  qed
qed

lemma bisect_left_le: "bisect_left a x \<le> length a"
  using bisect_loop_bounds[of 0 "length a" a x] by (simp add: bisect_left_def)

lemma bisect_loop_no_smaller:
  "\<forall>i<length a. \<not> a ! i < x \<Longrightarrow> hi \<le> length a \<Longrightarrow> bisect_loop a x lo hi = lo"
proof (induction a x lo hi rule: bisect_loop.induct)
  case (1 a x lo hi)
  show ?case
  proof (cases "lo < hi")
    case False
    then show ?thesis by (simp add: bisect_loop_stop)
  next
    case True
    let ?mid = "(lo + hi) div 2"
    have m: "?mid < hi" using True by auto
    then have ge: "\<not> a ! ?mid < x" using 1(3,4) by auto
    show ?thesis
      using 1(2)[of ?mid] True ge m 1(3,4) by (simp add: bisect_loop_left)
  qed
qed

lemma bisect_left_Min: "bisect_left a (Min (set a)) = 0"
proof -
  have "\<forall>i<length a. \<not> a ! i < Min (set a)"
    by (auto simp: not_less)
  then show ?thesis
    using bisect_loop_no_smaller[of a "Min (set a)" "length a" 0] by (simp add: bisect_left_def)
qed

lemma bisect_loop_sorted:
  "sorted_wrt (<) a \<Longrightarrow> j < length a \<Longrightarrow> lo \<le> j \<Longrightarrow> j \<le> hi \<Longrightarrow> hi \<le> length a
   \<Longrightarrow> bisect_loop a (a ! j) lo hi = j"
proof (induction a "a ! j" lo hi rule: bisect_loop.induct)
  case (1 a lo hi)
  show ?case
  proof (cases "lo < hi")
    case False
    then show ?thesis using 1(5,6) by (simp add: bisect_loop_stop)
  next
    case True
    let ?mid = "(lo + hi) div 2"
    have m: "?mid < hi" "?mid < length a" using True 1(7) by auto
    show ?thesis
    proof (cases "a ! ?mid < a ! j")
      case lt: True
      have "?mid < j"
      proof (rule ccontr)
        assume "\<not> ?mid < j"
        then have "j = ?mid \<or> j < ?mid" by auto
        then have "a ! j \<le> a ! ?mid"
        proof
          assume "j = ?mid" then show ?thesis by simp
        next
          assume "j < ?mid"
          then have "a ! j < a ! ?mid"
            using 1(3) m(2) by (simp add: sorted_wrt_iff_nth_less)
          then show ?thesis by simp
        qed
        with lt show False by simp
      qed
      then show ?thesis
        using 1(1)[of ?mid] True lt 1(3,4,6,7) by (simp add: bisect_loop_right)
    next
      case ge: False
      have "j \<le> ?mid"
      proof (rule ccontr)
        assume "\<not> j \<le> ?mid"
        then have "?mid < j" by simp
        then have "a ! ?mid < a ! j"
          using 1(3,4) by (simp add: sorted_wrt_iff_nth_less)
        with ge show False by simp
      qed
      then show ?thesis
        using 1(2)[of ?mid] True ge 1(3,4,5) m by (simp add: bisect_loop_left)
    qed
  qed
qed

lemma sorted_Max_last: "sorted_wrt (<) a \<Longrightarrow> a \<noteq> [] \<Longrightarrow> Max (set a) = a ! (length a - 1)"
proof -
  assume s: "sorted_wrt (<) a" and ne: "a \<noteq> []"
  have "\<forall>y\<in>set a. y \<le> a ! (length a - 1)"
  proof
    fix y assume "y \<in> set a"
    then obtain i where i: "i < length a" "a ! i = y" by (auto simp: in_set_conv_nth)
    show "y \<le> a ! (length a - 1)"
    proof (cases "i = length a - 1")
      case True then show ?thesis using i by simp
    next
      case False
      then have "i < length a - 1" using i by simp
      then have "a ! i < a ! (length a - 1)"
        using s ne by (auto simp: sorted_wrt_iff_nth_less)
      then show ?thesis using i by simp
    qed
  qed
  moreover have "a ! (length a - 1) \<in> set a" using ne by simp
  ultimately show ?thesis by (intro Max_eqI) auto
qed

lemma bisect_left_Max:
  "sorted_wrt (<) a \<Longrightarrow> a \<noteq> [] \<Longrightarrow> bisect_left a (Max (set a)) = length a - 1"
  using bisect_loop_sorted[of a "length a - 1" 0 "length a"] sorted_Max_last[of a]
  by (simp add: bisect_left_def)

lemmas eval_simps = CTVoxel_def GetArrayFromImage_def parse_material_def then_do_def first_seen_def
  dict_of_pairs_def py_min_def py_max_def clip_def convert_hu_to_material_def zeros_like_def
  bisect_left_def bisect_loop.simps Let_def around3_def rint_def

lemma convert_loop_eq:
  "pos + length xs \<le> length imap \<Longrightarrow>
   convert_loop hu xs pos imap =
     take pos imap
     @ map (\<lambda>x. of_nat (if bisect_left hu x = 0 then 1 else bisect_left hu x)) xs
     @ drop (pos + length xs) imap"
proof (induction xs arbitrary: pos imap)
  case Nil
  then show ?case by simp
next
  case (Cons x rest)
  let ?c = "of_nat (if bisect_left hu x = 0 then 1 else bisect_left hu x) :: 32 word"
  have pos: "pos < length imap" using Cons.prems by simp
  have "convert_loop hu (x # rest) pos imap = convert_loop hu rest (Suc pos) (imap[pos := ?c])"
    by (simp add: Let_def)
  also have "\<dots> = take (Suc pos) (imap[pos := ?c])
      @ map (\<lambda>x. of_nat (if bisect_left hu x = 0 then 1 else bisect_left hu x)) rest
      @ drop (Suc pos + length rest) (imap[pos := ?c])"
    using Cons.prems by (intro Cons.IH) simp
  also have "take (Suc pos) (imap[pos := ?c]) = take pos imap @ [?c]"
    using pos by (simp add: take_Suc_conv_app_nth)
  also have "drop (Suc pos + length rest) (imap[pos := ?c]) = drop (pos + length (x # rest)) imap"
    by simp
  finally show ?case by simp
qed

lemma convert_hu_to_material_data:
  "data (convert_hu_to_material hu arr) =
     map (\<lambda>x. of_nat (if bisect_left hu x = 0 then 1 else bisect_left hu x)) (data arr)"
  using convert_loop_eq[of 0 "data arr" "replicate (length (data arr)) 0" hu]
  by (simp add: convert_hu_to_material_def zeros_like_def Let_def)

lemma convert_hu_to_material_shape: "shape (convert_hu_to_material hu arr) = shape arr"
  by (simp add: convert_hu_to_material_def zeros_like_def Let_def)

lemma CTVoxel_InrD:
  assumes "CTVoxel ct m = Inr v"
  shows "hu_interval v \<noteq> []"
    and "array v = clip (GetArrayFromImage ct) (Min (set (hu_interval v))) (Max (set (hu_interval v)))"
    and "index_map v = convert_hu_to_material (hu_interval v) (array v)"
    and "size_vec v = map int (img_size ct)"
    and "spacing v = map (\<lambda>s. around3 (s / 20)) (img_spacing ct)"
    and "parse_material m = Inr (hu_interval v, element_table v, density_table v, keys v)"
  using assms
  by (auto simp: CTVoxel_def then_do_def py_min_def py_max_def Let_def fold_min_Min fold_max_Max
      split: sum.splits prod.splits if_splits)

lemma unat_index: "n < 2 ^ 32 \<Longrightarrow> unat (of_nat n :: 32 word) = n"
  by (simp add: unat_of_nat)

text \<open>
  Claim C2, as amended. When the classifier is built, the threshold table has at least
  one boundary. A sample below the smallest boundary is clipped to it and gets the
  index 1. A sample above the largest boundary is clipped to it; if the boundaries are
  strictly ascending (and fewer than \<open>2\<^sup>3\<^sup>2\<close>, so that the index fits the array's
  element type) it gets the index \<open>len(boundaries) - 1\<close>, or 1 when there is a single
  boundary. With fewer than \<open>2\<^sup>3\<^sup>2\<close> boundaries every index lies between 1 and
  \<open>len(boundaries)\<close>.
\<close>

theorem classified_out_of_range:
  assumes ok: "CTVoxel ct m = Inr v" and k: "k < length (img_buffer ct)"
  shows "hu_interval v \<noteq> []
    \<and> (img_buffer ct ! k < Min (set (hu_interval v)) \<longrightarrow>
         data (array v) ! k = Min (set (hu_interval v)) \<and> unat (data (index_map v) ! k) = 1)
    \<and> (Max (set (hu_interval v)) < img_buffer ct ! k \<longrightarrow>
         data (array v) ! k = Max (set (hu_interval v)) \<and>
         (sorted_wrt (<) (hu_interval v) \<and> length (hu_interval v) < 2 ^ 32 \<longrightarrow>
            unat (data (index_map v) ! k) = max 1 (length (hu_interval v) - 1)))
    \<and> (length (hu_interval v) < 2 ^ 32 \<longrightarrow>
         1 \<le> unat (data (index_map v) ! k) \<and> unat (data (index_map v) ! k) \<le> length (hu_interval v))"
proof -
  let ?hu = "hu_interval v"
  let ?lo = "Min (set ?hu)" and ?hi = "Max (set ?hu)"
  let ?x = "img_buffer ct ! k"
  let ?c = "min (max ?x ?lo) ?hi"
  let ?b = "bisect_left ?hu ?c"
  note d = CTVoxel_InrD[OF ok]
  have ne: "?hu \<noteq> []" by (rule d(1))
  have lohi: "?lo \<le> ?hi" using ne by simp
  have arr: "data (array v) ! k = ?c"
    using k by (simp add: d(2) clip_def GetArrayFromImage_def)
  have idx: "data (index_map v) ! k = of_nat (if ?b = 0 then 1 else ?b)"
    using k arr by (simp add: d(3) convert_hu_to_material_data d(2) clip_def GetArrayFromImage_def)
  have low: "?x < ?lo \<longrightarrow> data (array v) ! k = ?lo \<and> unat (data (index_map v) ! k) = 1"
  proof
    assume "?x < ?lo"
    then have c: "?c = ?lo" using lohi by (simp add: max_def min_def)
    then have "?b = 0" by (simp add: bisect_left_Min)
    then show "data (array v) ! k = ?lo \<and> unat (data (index_map v) ! k) = 1"
      using arr idx c by simp
  qed
  have high: "?hi < ?x \<longrightarrow> data (array v) ! k = ?hi \<and>
      (sorted_wrt (<) ?hu \<and> length ?hu < 2 ^ 32 \<longrightarrow> unat (data (index_map v) ! k) = max 1 (length ?hu - 1))"
  proof
    assume "?hi < ?x"
    then have c: "?c = ?hi" using lohi by (simp add: max_def min_def)
    show "data (array v) ! k = ?hi \<and>
      (sorted_wrt (<) ?hu \<and> length ?hu < 2 ^ 32 \<longrightarrow> unat (data (index_map v) ! k) = max 1 (length ?hu - 1))"
    proof (intro conjI impI)
      show "data (array v) ! k = ?hi" using arr c by simp
    next
      assume s: "sorted_wrt (<) ?hu \<and> length ?hu < 2 ^ 32"
      then have b: "?b = length ?hu - 1" using c ne by (simp add: bisect_left_Max)
      have "(if ?b = 0 then 1 else ?b) = max 1 (length ?hu - 1)" using b by simp
      moreover have "max 1 (length ?hu - 1) < 2 ^ 32" using s by auto
      ultimately show "unat (data (index_map v) ! k) = max 1 (length ?hu - 1)"
        using idx by (simp add: unat_index)
    qed
  qed
  have range: "length ?hu < 2 ^ 32 \<longrightarrow>
      1 \<le> unat (data (index_map v) ! k) \<and> unat (data (index_map v) ! k) \<le> length ?hu"
  proof
    assume l: "length ?hu < 2 ^ 32"
    have "?b \<le> length ?hu" by (rule bisect_left_le)
    moreover have "1 \<le> length ?hu" using ne by (cases ?hu) simp_all
    ultimately have "1 \<le> (if ?b = 0 then 1 else ?b) \<and> (if ?b = 0 then 1 else ?b) \<le> length ?hu"
      by simp
    moreover from this l have "(if ?b = 0 then 1 else ?b) < 2 ^ 32" by linarith
    ultimately show "1 \<le> unat (data (index_map v) ! k) \<and> unat (data (index_map v) ! k) \<le> length ?hu"
      using idx by (simp only: unat_index)
  qed
  from ne low high range show ?thesis by blast
qed

text \<open>The classifier on the image of the examples.\<close>

lemma CTVoxel_222:
  "map_sum id (\<lambda>v. (hu_interval v, data (index_map v), data (array v), shape (index_map v), shape (array v)))
     (CTVoxel image_222 material_two)
   = Inr ([-1000, 0, 3000], [1, 1, 2, 2, 2, 1, 1, 2],
          [-1000, -500, 500, 2000, 3000, 0, -1000, 3000], [2, 2, 2], [2, 2, 2])"
  by (simp add: image_222_def material_two_def eval_simps)

text \<open>
  On the image of the examples the sample 5000 lies above the largest of the three
  boundaries: it is clipped to 3000 and gets the index 2.
\<close>

theorem classified_out_of_range_witness:
  "\<exists>v. CTVoxel image_222 material_two = Inr v \<and> 4 < length (img_buffer image_222)
     \<and> Max (set (hu_interval v)) < img_buffer image_222 ! 4
     \<and> sorted_wrt (<) (hu_interval v) \<and> length (hu_interval v) < 2 ^ 32
     \<and> data (array v) ! 4 = 3000 \<and> unat (data (index_map v) ! 4) = 2"
proof -
  obtain v where v: "CTVoxel image_222 material_two = Inr v"
    using CTVoxel_222 by (cases "CTVoxel image_222 material_two") auto
  have hu: "hu_interval v = [-1000, 0, 3000]"
    using CTVoxel_222 v by simp
  have k: "4 < length (img_buffer image_222)" by (simp add: image_222_def)
  have b: "img_buffer image_222 ! 4 = 5000" by (simp add: image_222_def)
  show ?thesis
    using classified_out_of_range[OF v k] v k hu b by simp
qed

text \<open>
  Claim C2 as the specification states it fails there: the claim gives the sample
  above the largest boundary the index \<open>len(boundaries)\<close>, which is 3.
\<close>

theorem above_max_index_counterexample:
  "\<not> isl (CTVoxel image_222 material_two)
   \<and> Max (set (hu_interval (projr (CTVoxel image_222 material_two)))) < img_buffer image_222 ! 4
   \<and> length (hu_interval (projr (CTVoxel image_222 material_two))) = 3
   \<and> unat (data (index_map (projr (CTVoxel image_222 material_two))) ! 4) = 2"
proof -
  obtain v where v: "CTVoxel image_222 material_two = Inr v"
    using CTVoxel_222 by (cases "CTVoxel image_222 material_two") auto
  have "hu_interval v = [-1000, 0, 3000]" "data (index_map v) = [1, 1, 2, 2, 2, 1, 1, 2]"
    using CTVoxel_222 v by simp_all
  then show ?thesis using v by (simp add: image_222_def)
qed

section \<open>Shapes\<close>

text \<open>
  Claim C9, as amended. The material-index volume and the clipped intensity volume
  have the same shape and the same number of elements. That shape is the image's size
  vector reversed: the arrays are indexed \<^verbatim>\<open>[z, y, x]\<close>, the size vector counts the
  voxels along x, y and z. The classifier's own \<open>size\<close> attribute is the size vector.
\<close>

theorem volumes_share_shape:
  assumes "CTVoxel ct m = Inr v"
  shows "shape (index_map v) = shape (array v)
       \<and> length (data (index_map v)) = length (data (array v))
       \<and> shape (array v) = rev (img_size ct)
       \<and> size_vec v = map int (img_size ct)"
  using CTVoxel_InrD[OF assms]
  by (simp add: convert_hu_to_material_shape convert_hu_to_material_data clip_def GetArrayFromImage_def)

lemma CTVoxel_123:
  "map_sum id (\<lambda>v. (shape (index_map v), shape (array v), size_vec v))
     (CTVoxel image_123 material_two)
   = Inr ([3, 2, 1], [3, 2, 1], [1, 2, 3])"
  by (simp add: image_123_def material_two_def eval_simps)

text \<open>
  An image of 1 by 2 by 3 voxels: both volumes have the shape (3, 2, 1).
\<close>

theorem volumes_share_shape_witness:
  "\<exists>v. CTVoxel image_123 material_two = Inr v
     \<and> shape (index_map v) = [3, 2, 1] \<and> shape (array v) = [3, 2, 1] \<and> size_vec v = [1, 2, 3]"
proof -
  obtain v where v: "CTVoxel image_123 material_two = Inr v"
    using CTVoxel_123 by (cases "CTVoxel image_123 material_two") auto
  show ?thesis
    using volumes_share_shape[OF v] v by (simp add: image_123_def)
qed

text \<open>
  Claim C9 as the specification states it fails on that image: the shape of the
  material-index volume is (3, 2, 1), the size vector (1, 2, 3).
\<close>

theorem shape_is_size_counterexample:
  "\<not> isl (CTVoxel image_123 material_two)
   \<and> map int (shape (index_map (projr (CTVoxel image_123 material_two)))) = [3, 2, 1]
   \<and> size_vec (projr (CTVoxel image_123 material_two)) = [1, 2, 3]"
proof -
  obtain v where v: "CTVoxel image_123 material_two = Inr v"
    using CTVoxel_123 by (cases "CTVoxel image_123 material_two") auto
  then show ?thesis using CTVoxel_123 by simp
qed

section \<open>The geometry constructor\<close>

lemma phantom_axis_limit:
  assumes "phantom_axis F n1 n2 p sep i g = Inr g'"
  shows "i < length (size_vec g) \<and> i < length (spacing g)
       \<and> size_vec g' = size_vec g \<and> spacing g' = spacing g
       \<and> phantom_limit g' = phantom_limit g @
           [if size_vec g ! i mod 2 = 0 then real_of_int (size_vec g ! i + 1) * spacing g ! i
            else real_of_int (size_vec g ! i) * spacing g ! i]
       \<and> phantom_origin g' = phantom_origin g @
           [if size_vec g ! i mod 2 = 0 then real_of_int (- (size_vec g ! i) + 1) * spacing g ! i
            else real_of_int (- (size_vec g ! i)) * spacing g ! i]"
  using assms
  by (auto simp: phantom_axis_def then_do_def getitem_def Let_def split: if_splits)

lemma build_phantom_limit:
  assumes "build_phantom_cell_surfaces F g = Inr g'"
  shows "3 \<le> length (size_vec g) \<and> 3 \<le> length (spacing g)
       \<and> size_vec g' = size_vec g \<and> spacing g' = spacing g
       \<and> phantom_limit g' =
           map (\<lambda>i. if size_vec g ! i mod 2 = 0 then real_of_int (size_vec g ! i + 1) * spacing g ! i
                     else real_of_int (size_vec g ! i) * spacing g ! i) [0, 1, 2]"
proof -
  let ?g0 = "g\<lparr>phantom_cell_surfaces := [], phantom_origin := [], phantom_limit := [], fill := ''fill=''\<rparr>"
  obtain g1 g2 g3 where
    a1: "phantom_axis F ''111'' ''112'' ''px'' '' '' 0 ?g0 = Inr g1" and
    a2: "phantom_axis F ''113'' ''114'' ''py'' '' '' 1 g1 = Inr g2" and
    a3: "phantom_axis F ''115'' ''116'' ''pz'' '''' 2 g2 = Inr g3" and
    g': "g' = g3\<lparr>phantom_cell_geom := ''-111 112 -113 114 -115 116''\<rparr>"
    using assms by (auto simp: build_phantom_cell_surfaces_def then_do_def split: sum.splits)
  show ?thesis
    using phantom_axis_limit[OF a1] phantom_axis_limit[OF a2] phantom_axis_limit[OF a3] g'
    by simp
qed

lemma build_base_cases:
  "build_base_cell_surfaces F g =
     (if length (spacing g) < 3 then Inl IndexError
      else Inr (g\<lparr>base_cell_surfaces :=
                [''11    px    '' @ fmt3f F (spacing g ! 0) @ ''\<newline>'',
                 ''12    px    '' @ fmt3f F (- (spacing g ! 0)) @ ''\<newline>'',
                 ''13    py    '' @ fmt3f F (spacing g ! 1) @ ''\<newline>'',
                 ''14    py    '' @ fmt3f F (- (spacing g ! 1)) @ ''\<newline>'',
                 ''15    pz    '' @ fmt3f F (spacing g ! 2) @ ''\<newline>'',
                 ''16    pz    '' @ fmt3f F (- (spacing g ! 2)) @ ''\<newline>''],
              base_cell_geom := ''-11 12 -13 14 -15 16''\<rparr>))"
  by (simp add: build_base_cell_surfaces_def then_do_def getitem_def)

lemma phantom_axis_ok:
  "i < length (size_vec g) \<Longrightarrow> i < length (spacing g) \<Longrightarrow>
   \<exists>g'. phantom_axis F n1 n2 p sep i g = Inr g'"
  by (simp add: phantom_axis_def then_do_def getitem_def Let_def)

lemma phantom_axis_fail:
  "\<not> (i < length (size_vec g) \<and> i < length (spacing g)) \<Longrightarrow>
   phantom_axis F n1 n2 p sep i g = Inl IndexError"
  by (auto simp: phantom_axis_def then_do_def getitem_def Let_def)

lemma build_phantom_ok:
  assumes "3 \<le> length (size_vec g)" "3 \<le> length (spacing g)"
  shows "\<exists>g'. build_phantom_cell_surfaces F g = Inr g'"
proof -
  let ?g0 = "g\<lparr>phantom_cell_surfaces := [], phantom_origin := [], phantom_limit := [], fill := ''fill=''\<rparr>"
  have "\<exists>g1. phantom_axis F ''111'' ''112'' ''px'' '' '' 0 ?g0 = Inr g1"
    by (rule phantom_axis_ok) (use assms in auto)
  then obtain g1 where a1: "phantom_axis F ''111'' ''112'' ''px'' '' '' 0 ?g0 = Inr g1" ..
  have l1: "size_vec g1 = size_vec g" "spacing g1 = spacing g"
    using phantom_axis_limit[OF a1] by simp_all
  have "\<exists>g2. phantom_axis F ''113'' ''114'' ''py'' '' '' 1 g1 = Inr g2"
    by (rule phantom_axis_ok) (use assms l1 in auto)
  then obtain g2 where a2: "phantom_axis F ''113'' ''114'' ''py'' '' '' 1 g1 = Inr g2" ..
  have l2: "size_vec g2 = size_vec g" "spacing g2 = spacing g"
    using phantom_axis_limit[OF a2] l1 by simp_all
  have "\<exists>g3. phantom_axis F ''115'' ''116'' ''pz'' '''' 2 g2 = Inr g3"
    by (rule phantom_axis_ok) (use assms l2 in auto)
  then obtain g3 where a3: "phantom_axis F ''115'' ''116'' ''pz'' '''' 2 g2 = Inr g3" ..
  show ?thesis
    using a1 a2 a3 by (simp add: build_phantom_cell_surfaces_def then_do_def)
qed

lemma build_phantom_fail:
  assumes "length (size_vec g) < 3 \<or> length (spacing g) < 3"
  shows "build_phantom_cell_surfaces F g = Inl IndexError"
proof -
  let ?g0 = "g\<lparr>phantom_cell_surfaces := [], phantom_origin := [], phantom_limit := [], fill := ''fill=''\<rparr>"
  show ?thesis
  proof (cases "phantom_axis F ''111'' ''112'' ''px'' '' '' 0 ?g0")
    case (Inl e)
    then have "e = IndexError"
      by (auto simp: phantom_axis_def then_do_def getitem_def Let_def split: if_splits)
    then show ?thesis using Inl by (simp add: build_phantom_cell_surfaces_def then_do_def)
  next
    case (Inr g1)
    note l1 = phantom_axis_limit[OF Inr]
    show ?thesis
    proof (cases "phantom_axis F ''113'' ''114'' ''py'' '' '' 1 g1")
      case (Inl e)
      then have "e = IndexError"
        by (auto simp: phantom_axis_def then_do_def getitem_def Let_def split: if_splits)
      then show ?thesis using Inl \<open>phantom_axis F ''111'' ''112'' ''px'' '' '' 0 ?g0 = Inr g1\<close>
        by (simp add: build_phantom_cell_surfaces_def then_do_def)
    next
      case g2: (Inr g2)
      note l2 = phantom_axis_limit[OF g2]
      have "\<not> (2 < length (size_vec g2) \<and> 2 < length (spacing g2))"
        using assms l1 l2 by auto
      then have "phantom_axis F ''115'' ''116'' ''pz'' '''' 2 g2 = Inl IndexError"
        by (rule phantom_axis_fail)
      then show ?thesis using g2 \<open>phantom_axis F ''111'' ''112'' ''px'' '' '' 0 ?g0 = Inr g1\<close>
        by (simp add: build_phantom_cell_surfaces_def then_do_def)
    qed
  qed
qed

lemma phantom_axis_frame:
  assumes "phantom_axis F n1 n2 p sep i g = Inr g'"
  shows "index_map g' = index_map g \<and> keys g' = keys g \<and> element_table g' = element_table g
       \<and> density_table g' = density_table g \<and> mode g' = mode g"
  using assms
  by (auto simp: phantom_axis_def then_do_def getitem_def Let_def split: if_splits)

lemma build_phantom_frame:
  assumes "build_phantom_cell_surfaces F g = Inr g'"
  shows "index_map g' = index_map g \<and> keys g' = keys g \<and> element_table g' = element_table g
       \<and> density_table g' = density_table g \<and> mode g' = mode g"
proof -
  let ?g0 = "g\<lparr>phantom_cell_surfaces := [], phantom_origin := [], phantom_limit := [], fill := ''fill=''\<rparr>"
  obtain g1 g2 g3 where
    a1: "phantom_axis F ''111'' ''112'' ''px'' '' '' 0 ?g0 = Inr g1" and
    a2: "phantom_axis F ''113'' ''114'' ''py'' '' '' 1 g1 = Inr g2" and
    a3: "phantom_axis F ''115'' ''116'' ''pz'' '''' 2 g2 = Inr g3" and
    g': "g' = g3\<lparr>phantom_cell_geom := ''-111 112 -113 114 -115 116''\<rparr>"
    using assms by (auto simp: build_phantom_cell_surfaces_def then_do_def split: sum.splits)
  show ?thesis
    using phantom_axis_frame[OF a1] phantom_axis_frame[OF a2] phantom_axis_frame[OF a3] g'
    by simp
qed

lemma build_world_cases:
  "build_world_surface F g =
     (if length (size_vec g) \<noteq> length (spacing g) \<or> size_vec g = [] then Inl ValueError
      else Inr (g\<lparr>word_cell_surface := ''1000  so  ''
             @ str_float F (Max (set (map (\<lambda>(n, s). real_of_int n * s) (zip (size_vec g) (spacing g)))) + 100)
             @ ''\<newline>''\<rparr>))"
  by (simp add: build_world_surface_def world_radius_def then_do_def Let_def)

lemma Geometry_steps:
  "Geometry F vx md =
     then_do (build_base_cell_surfaces F (geometry_start vx md)) (\<lambda>g.
     then_do (build_phantom_cell_surfaces F g) (\<lambda>g. build_world_surface F g))"
  by (simp add: Geometry_def)

lemma Geometry_InrD:
  assumes "Geometry F vx md = Inr g"
  shows "size_vec g = size_vec vx" and "spacing g = spacing vx" and "index_map g = index_map vx"
    and "keys g = keys vx" and "element_table g = element_table vx"
    and "density_table g = density_table vx" and "mode g = join '','' md"
    and "3 \<le> length (size_vec vx)" and "length (spacing vx) = length (size_vec vx)"
    and "phantom_limit g =
           map (\<lambda>i. if size_vec vx ! i mod 2 = 0 then real_of_int (size_vec vx ! i + 1) * spacing vx ! i
                     else real_of_int (size_vec vx ! i) * spacing vx ! i) [0, 1, 2]"
    and "word_cell_surface g = ''1000  so  ''
             @ str_float F (Max (set (map (\<lambda>(n, s). real_of_int n * s) (zip (size_vec vx) (spacing vx)))) + 100)
             @ ''\<newline>''"
proof -
  let ?s = "geometry_start vx md"
  obtain g1 g2 where
    b: "build_base_cell_surfaces F ?s = Inr g1" and
    p: "build_phantom_cell_surfaces F g1 = Inr g2" and
    w: "build_world_surface F g2 = Inr g"
    using assms by (auto simp: Geometry_steps then_do_def split: sum.splits)
  have g1: "size_vec g1 = size_vec vx" "spacing g1 = spacing vx" "index_map g1 = index_map vx"
    "keys g1 = keys vx" "element_table g1 = element_table vx" "density_table g1 = density_table vx"
    "mode g1 = join '','' md"
    using b by (auto simp: build_base_cases geometry_start_def split: if_splits)
  note l = build_phantom_limit[OF p] and f = build_phantom_frame[OF p]
  have g: "length (size_vec g2) = length (spacing g2)"
    "g = g2\<lparr>word_cell_surface := ''1000  so  ''
             @ str_float F (Max (set (map (\<lambda>(n, s). real_of_int n * s) (zip (size_vec g2) (spacing g2)))) + 100)
             @ ''\<newline>''\<rparr>"
    using w by (auto simp: build_world_cases split: if_splits)
  show "size_vec g = size_vec vx" "spacing g = spacing vx" "index_map g = index_map vx"
    "keys g = keys vx" "element_table g = element_table vx"
    "density_table g = density_table vx" "mode g = join '','' md"
    using g(2) l f g1 by simp_all
  show "3 \<le> length (size_vec vx)" "length (spacing vx) = length (size_vec vx)"
    using g(1) l g1 by simp_all
  show "phantom_limit g =
           map (\<lambda>i. if size_vec vx ! i mod 2 = 0 then real_of_int (size_vec vx ! i + 1) * spacing vx ! i
                     else real_of_int (size_vec vx ! i) * spacing vx ! i) [0, 1, 2]"
    using g(2) l g1 by simp
  show "word_cell_surface g = ''1000  so  ''
             @ str_float F (Max (set (map (\<lambda>(n, s). real_of_int n * s) (zip (size_vec vx) (spacing vx)))) + 100)
             @ ''\<newline>''"
    using g(2) l g1 by simp
qed

lemma Geometry_short:
  assumes a: "length (spacing vx) < 3 \<or> length (size_vec vx) < 3"
  shows "Geometry F vx md = Inl IndexError"
proof (cases "length (spacing vx) < 3")
  case True
  then show ?thesis
    by (simp add: Geometry_steps build_base_cases then_do_def geometry_start_def)
next
  case False
  let ?s = "geometry_start vx md"
  from False obtain g1 where b: "build_base_cell_surfaces F ?s = Inr g1"
    and g1: "size_vec g1 = size_vec vx" "spacing g1 = spacing vx"
    by (auto simp: build_base_cases geometry_start_def)
  have "build_phantom_cell_surfaces F g1 = Inl IndexError"
    using a g1 by (intro build_phantom_fail) auto
  then show ?thesis using b by (simp add: Geometry_steps then_do_def)
qed

lemma Geometry_world:
  assumes a: "3 \<le> length (spacing vx)" "3 \<le> length (size_vec vx)"
  shows "\<exists>g. Geometry F vx md = build_world_surface F g
           \<and> size_vec g = size_vec vx \<and> spacing g = spacing vx"
proof -
  let ?s = "geometry_start vx md"
  from a obtain g1 where b: "build_base_cell_surfaces F ?s = Inr g1"
    and g1: "size_vec g1 = size_vec vx" "spacing g1 = spacing vx"
    by (auto simp: build_base_cases geometry_start_def)
  obtain g2 where p: "build_phantom_cell_surfaces F g1 = Inr g2"
    using build_phantom_ok[of g1 F] a g1 by auto
  have "Geometry F vx md = build_world_surface F g2"
    using b p by (simp add: Geometry_steps then_do_def)
  then show ?thesis using build_phantom_limit[OF p] g1 by auto
qed

lemma Geometry_ok:
  assumes "3 \<le> length (size_vec vx)" "length (spacing vx) = length (size_vec vx)"
  shows "\<not> isl (Geometry F vx md)"
proof -
  obtain g where "Geometry F vx md = build_world_surface F g"
    "size_vec g = size_vec vx" "spacing g = spacing vx"
    using Geometry_world[of vx F md] assms by auto
  then show ?thesis using assms by (auto simp: build_world_cases)
qed

lemma build_phantom_origin:
  assumes "build_phantom_cell_surfaces F g = Inr g'"
  shows "length (phantom_origin g') = 3"
proof -
  let ?g0 = "g\<lparr>phantom_cell_surfaces := [], phantom_origin := [], phantom_limit := [], fill := ''fill=''\<rparr>"
  obtain g1 g2 g3 where
    a1: "phantom_axis F ''111'' ''112'' ''px'' '' '' 0 ?g0 = Inr g1" and
    a2: "phantom_axis F ''113'' ''114'' ''py'' '' '' 1 g1 = Inr g2" and
    a3: "phantom_axis F ''115'' ''116'' ''pz'' '''' 2 g2 = Inr g3" and
    g': "g' = g3\<lparr>phantom_cell_geom := ''-111 112 -113 114 -115 116''\<rparr>"
    using assms by (auto simp: build_phantom_cell_surfaces_def then_do_def split: sum.splits)
  show ?thesis
    using phantom_axis_limit[OF a1] phantom_axis_limit[OF a2] phantom_axis_limit[OF a3] g'
    by simp
qed

lemma Geometry_origin:
  assumes "Geometry F vx md = Inr g"
  shows "length (phantom_origin g) = 3"
proof -
  obtain g1 g2 where
    p: "build_phantom_cell_surfaces F g1 = Inr g2" and
    w: "build_world_surface F g2 = Inr g"
    using assms by (auto simp: Geometry_steps then_do_def split: sum.splits)
  have "phantom_origin g = phantom_origin g2"
    using w by (auto simp: build_world_cases split: if_splits)
  then show ?thesis using build_phantom_origin[OF p] by simp
qed

text \<open>
  Claim C8, as amended. The constructor fails with IndexError when the spacing vector
  or the size vector has fewer than three entries, and with ValueError when both have
  three or more but not equally many. In every other case it returns a geometry: it
  accepts vectors of more than three entries, and it does not look at the sign of the
  spacing.
\<close>

theorem geometry_rejects:
  "(length (spacing vx) < 3 \<or> length (size_vec vx) < 3 \<longrightarrow> Geometry F vx md = Inl IndexError)
   \<and> (3 \<le> length (spacing vx) \<and> 3 \<le> length (size_vec vx)
        \<and> length (spacing vx) \<noteq> length (size_vec vx) \<longrightarrow> Geometry F vx md = Inl ValueError)
   \<and> (3 \<le> length (size_vec vx) \<and> length (spacing vx) = length (size_vec vx) \<longrightarrow>
        \<not> isl (Geometry F vx md))"
proof (intro conjI impI)
  assume "length (spacing vx) < 3 \<or> length (size_vec vx) < 3"
  then show "Geometry F vx md = Inl IndexError"
    by (rule Geometry_short)
next
  assume a: "3 \<le> length (spacing vx) \<and> 3 \<le> length (size_vec vx)
        \<and> length (spacing vx) \<noteq> length (size_vec vx)"
  then obtain g where g: "Geometry F vx md = build_world_surface F g"
    "size_vec g = size_vec vx" "spacing g = spacing vx"
    using Geometry_world[of vx F md] by auto
  have "build_world_surface F g = Inl ValueError"
    using a g(2,3) by (auto simp: build_world_cases)
  then show "Geometry F vx md = Inl ValueError"
    using g(1) by simp
next
  assume "3 \<le> length (size_vec vx) \<and> length (spacing vx) = length (size_vec vx)"
  then show "\<not> isl (Geometry F vx md)"
    using Geometry_ok[of vx F md] by simp
qed

lemma CTVoxel_wide:
  "map_sum id (\<lambda>v. (size_vec v, spacing v)) (CTVoxel image_wide material_two)
     = Inr ([2, 2, 2], [101, 101, 101])"
  by (simp add: image_wide_def material_two_def eval_simps)

lemma CTVoxel_thin:
  "map_sum id (\<lambda>v. (size_vec v, spacing v)) (CTVoxel image_thin material_two)
     = Inr ([2, 2, 2], [0, 1, 1])"
  by (simp add: image_thin_def material_two_def eval_simps)

lemma CTVoxel_2d:
  "map_sum id (\<lambda>v. (size_vec v, spacing v)) (CTVoxel image_2d material_two)
     = Inr ([2, 2], [1, 1])"
  by (simp add: image_2d_def material_two_def eval_simps)

lemma CTVoxel_222_geometry:
  "map_sum id (\<lambda>v. (size_vec v, spacing v)) (CTVoxel image_222 material_two)
     = Inr ([2, 2, 2], [1, 1, 1])"
  by (simp add: image_222_def material_two_def eval_simps)

text \<open>
  An image of two dimensions is rejected with IndexError.
\<close>

theorem geometry_rejects_witness:
  "length (spacing (projr (CTVoxel image_2d material_two))) < 3
   \<and> Geometry example_fmt (projr (CTVoxel image_2d material_two)) [''p''] = Inl IndexError"
proof -
  let ?v = "projr (CTVoxel image_2d material_two)"
  have v: "size_vec ?v = [2, 2]" "spacing ?v = [1, 1]"
    using CTVoxel_2d by (cases "CTVoxel image_2d material_two"; simp)+
  show ?thesis
    using geometry_rejects[of ?v example_fmt "[''p'']"] v by simp
qed

text \<open>
  Claim C8 as the specification states it fails for a spacing of 0.004 along x: the
  classifier rounds \<open>0.004 / 20\<close> to 0, and the constructor accepts the spacing
  vector (0, 1, 1).
\<close>

theorem zero_spacing_accepted_counterexample:
  "spacing (projr (CTVoxel image_thin material_two)) = [0, 1, 1]
   \<and> \<not> isl (Geometry example_fmt (projr (CTVoxel image_thin material_two)) [''p''])"
proof -
  let ?v = "projr (CTVoxel image_thin material_two)"
  have v: "size_vec ?v = [2, 2, 2]" "spacing ?v = [0, 1, 1]"
    using CTVoxel_thin by (cases "CTVoxel image_thin material_two"; simp)+
  have "3 \<le> length (size_vec ?v) \<and> length (spacing ?v) = length (size_vec ?v)"
    using v by simp
  then have "\<not> isl (Geometry example_fmt ?v [''p''])"
    using Geometry_ok[of ?v example_fmt "[''p'']"] by blast
  then show ?thesis using v by simp
qed

section \<open>The world sphere\<close>

text \<open>
  Claim C4, as amended. The radius of the world sphere is the largest product of size
  and spacing over the axes, plus 100. It exceeds the phantom-box limit of an axis
  with an odd voxel count by at least 100, and the limit of an axis with an even voxel
  count by at least 100 minus the spacing of that axis.
\<close>

theorem world_radius_margin:
  assumes ok: "Geometry F vx md = Inr g" and i: "i < 3"
  shows "\<exists>r. world_radius g = Inr r
       \<and> r = Max (set (map (\<lambda>(n, s). real_of_int n * s) (zip (size_vec g) (spacing g)))) + 100
       \<and> word_cell_surface g = ''1000  so  '' @ str_float F r @ ''\<newline>''
       \<and> (size_vec g ! i mod 2 \<noteq> 0 \<longrightarrow> phantom_limit g ! i + 100 \<le> r)
       \<and> (size_vec g ! i mod 2 = 0 \<longrightarrow> phantom_limit g ! i - spacing g ! i + 100 \<le> r)"
proof -
  note d = Geometry_InrD[OF ok]
  let ?ps = "map (\<lambda>(n, s). real_of_int n * s) (zip (size_vec g) (spacing g))"
  let ?r = "Max (set ?ps) + 100"
  have len: "3 \<le> length (size_vec g)" "length (spacing g) = length (size_vec g)"
    using d by simp_all
  have r: "world_radius g = Inr ?r"
    using len by (auto simp: world_radius_def Let_def)
  have il: "i < length ?ps" using len i by simp
  then have mem: "?ps ! i \<in> set ?ps" by (rule nth_mem)
  have ps: "real_of_int (size_vec g ! i) * spacing g ! i = ?ps ! i"
    using len i by simp
  have prod: "real_of_int (size_vec g ! i) * spacing g ! i \<le> Max (set ?ps)"
    unfolding ps by (rule Max_ge[OF finite_set mem])
  have sz: "size_vec g = size_vec vx" "spacing g = spacing vx" by (rule d(1), rule d(2))
  have lim: "phantom_limit g ! i =
      (if size_vec g ! i mod 2 = 0 then real_of_int (size_vec g ! i + 1) * spacing g ! i
       else real_of_int (size_vec g ! i) * spacing g ! i)"
  proof -
    from i have "i = 0 \<or> i = 1 \<or> i = 2" by presburger
    then show ?thesis unfolding d(10) sz by (elim disjE) simp_all
  qed
  have odd: "size_vec g ! i mod 2 \<noteq> 0 \<longrightarrow> phantom_limit g ! i + 100 \<le> ?r"
    using prod by (simp add: lim)
  have even: "size_vec g ! i mod 2 = 0 \<longrightarrow> phantom_limit g ! i - spacing g ! i + 100 \<le> ?r"
    using prod by (simp add: lim algebra_simps)
  have w: "word_cell_surface g = ''1000  so  '' @ str_float F ?r @ ''\<newline>''"
    unfolding d(11) sz ..
  show ?thesis
    by (rule exI[of _ ?r]) (intro conjI refl r w odd even)
qed

text \<open>
  Two voxels of spacing 1 along every axis: the radius is 102 and the limit 3.
\<close>

theorem world_radius_margin_witness:
  "\<exists>g. Geometry example_fmt (projr (CTVoxel image_222 material_two)) [''p''] = Inr g
     \<and> (0::nat) < 3 \<and> size_vec g ! 0 mod 2 = 0 \<and> spacing g ! 0 = 1
     \<and> world_radius g = Inr 102 \<and> phantom_limit g ! 0 = 3"
proof -
  let ?v = "projr (CTVoxel image_222 material_two)"
  have v: "size_vec ?v = [2, 2, 2]" "spacing ?v = [1, 1, 1]"
    using CTVoxel_222_geometry by (cases "CTVoxel image_222 material_two"; simp)+
  have "\<not> isl (Geometry example_fmt ?v [''p''])"
    by (rule Geometry_ok) (simp_all add: v)
  then obtain g where g: "Geometry example_fmt ?v [''p''] = Inr g"
    by (cases "Geometry example_fmt ?v [''p'']") auto
  note d = Geometry_InrD[OF g]
  have s: "size_vec g = [2, 2, 2]" "spacing g = [1, 1, 1]" using d(1,2) v by simp_all
  have l: "phantom_limit g ! 0 = 3" unfolding d(10) v by simp
  have r: "world_radius g = Inr 102" by (simp add: world_radius_def s Let_def)
  show ?thesis
    using world_radius_margin[OF g, of 0] g s l r by simp
qed

text \<open>
  Claim C4 as the specification states it fails for two voxels of spacing 101 along
  every axis: the radius is 302, the limit of the phantom box 303.
\<close>

theorem radius_exceeds_extent_counterexample:
  "\<not> isl (Geometry example_fmt (projr (CTVoxel image_wide material_two)) [''p''])
   \<and> world_radius (projr (Geometry example_fmt (projr (CTVoxel image_wide material_two)) [''p''])) = Inr 302
   \<and> phantom_limit (projr (Geometry example_fmt (projr (CTVoxel image_wide material_two)) [''p''])) ! 0 = 303"
proof -
  let ?v = "projr (CTVoxel image_wide material_two)"
  have v: "size_vec ?v = [2, 2, 2]" "spacing ?v = [101, 101, 101]"
    using CTVoxel_wide by (cases "CTVoxel image_wide material_two"; simp)+
  have "\<not> isl (Geometry example_fmt ?v [''p''])"
    by (rule Geometry_ok) (simp_all add: v)
  then obtain g where g: "Geometry example_fmt ?v [''p''] = Inr g"
    by (cases "Geometry example_fmt ?v [''p'']") auto
  note d = Geometry_InrD[OF g]
  have s: "size_vec g = [2, 2, 2]" "spacing g = [101, 101, 101]" using d(1,2) v by simp_all
  have l: "phantom_limit g ! 0 = 303" unfolding d(10) v by simp
  have r: "world_radius g = Inr 302" by (simp add: world_radius_def s Let_def)
  show ?thesis using g l r by simp
qed

section \<open>The tally writer\<close>

lemma fold_append_prefix:
  "\<exists>rest. fold (\<lambda>(a, b) s. s @ h a b) xs init = init @ rest"
proof (induction xs arbitrary: init)
  case Nil
  show ?case by simp
next
  case (Cons x xs)
  obtain a b where x: "x = (a, b)" by (cases x)
  obtain rest where "fold (\<lambda>(a, b) s. s @ h a b) xs (init @ h a b) = (init @ h a b) @ rest"
    using Cons[of "init @ h a b"] by blast
  then show ?case using x by simp
qed

lemma parse_de_df_header: "take 8 (parse_de_df F es fs ident) = ''#     DE''"
proof -
  obtain rest where
    "parse_de_df F es fs ident = (''#     DE'' @ ident @ ''     DF'' @ ident @ ''\<newline>'') @ rest"
    unfolding parse_de_df_def
    using fold_append_prefix[of "\<lambda>e f. ''     '' @ str_scalar F e @ ''     '' @ str_scalar F f @ ''\<newline>''"
        "zip es fs" "''#     DE'' @ ident @ ''     DF'' @ ident @ ''\<newline>''"]
    by auto
  then show ?thesis by simp
qed

lemma fmesh_line_start: "fmesh_line F t ident v = Inr s \<Longrightarrow> take 8 s \<noteq> ''#     DE''"
  by (auto simp: fmesh_line_def then_do_def getattr_def getitem_def split: option.splits if_splits)

lemma mesh_line_start: "mesh_line F t mesh ints k = Inr s \<Longrightarrow> take 8 s \<noteq> ''#     DE''"
  by (auto simp: mesh_line_def then_do_def getattr_def getitem_def split: option.splits if_splits)

lemma tally_step_written:
  assumes "fst (tally_step F t ident v f) = None"
  shows "\<exists>l1 l2 l3 l4.
      fmesh_line F t ident v = Inr l1 \<and> mesh_line F t ''imesh'' ''iints'' 0 = Inr l2
    \<and> mesh_line F t ''jmesh'' ''jints'' 1 = Inr l3 \<and> mesh_line F t ''kmesh'' ''kints'' 2 = Inr l4
    \<and> snd (tally_step F t ident v f) = f @ [l1, l2, l3, l4]
        @ (if de v \<noteq> None \<and> df v \<noteq> None
           then [parse_de_df F (the (de v)) (the (df v)) (ident @ ''4'')] else [])
        @ (if fm v \<noteq> None
           then [''FM'' @ ident @ ''4  '' @ list_to_str F (the (fm v)) @ ''\<newline>''] else [])"
  using assms
  by (auto simp: tally_step_def and_then_def write_line_def file_write_def split: sum.splits)

lemma Tally_attributes:
  assumes "Geometry F vx md = Inr g"
  shows "\<exists>origin limit sz.
      mesh_origin (Tally g md (Some items)) = Some origin \<and> length origin = 3
    \<and> mesh_limit (Tally g md (Some items)) = Some limit \<and> length limit = 3
    \<and> t_size (Tally g md (Some items)) = Some sz \<and> 3 \<le> length sz
    \<and> config (Tally g md (Some items)) = Some items"
  using Geometry_origin[OF assms] Geometry_InrD(1,8,10)[OF assms]
  by (simp add: Tally_def)

lemma fmesh_line_ok:
  assumes "mesh_origin t = Some origin" "length origin = 3" "particle v \<noteq> None"
  shows "\<exists>s. fmesh_line F t ident v = Inr s"
  using assms by (auto simp: fmesh_line_def then_do_def getattr_def getitem_def)

lemma mesh_line_ok:
  assumes "mesh_limit t = Some limit" "k < length limit" "t_size t = Some sz" "k < length sz"
  shows "\<exists>s. mesh_line F t mesh ints k = Inr s"
  using assms by (simp add: mesh_line_def then_do_def getattr_def getitem_def)

lemma tally_step_ok:
  assumes "mesh_origin t = Some origin" "length origin = 3"
    and "mesh_limit t = Some limit" "length limit = 3"
    and "t_size t = Some sz" "3 \<le> length sz"
    and "particle v \<noteq> None"
  shows "fst (tally_step F t ident v f) = None"
proof -
  obtain l1 where l1: "fmesh_line F t ident v = Inr l1"
    using fmesh_line_ok[OF assms(1,2,7)] by blast
  have b: "0 < length limit" "1 < length limit" "2 < length limit"
    "0 < length sz" "1 < length sz" "2 < length sz"
    using assms(4,6) by auto
  obtain l2 where l2: "mesh_line F t ''imesh'' ''iints'' 0 = Inr l2"
    using mesh_line_ok[OF assms(3) b(1) assms(5) b(4)] by blast
  obtain l3 where l3: "mesh_line F t ''jmesh'' ''jints'' 1 = Inr l3"
    using mesh_line_ok[OF assms(3) b(2) assms(5) b(5)] by blast
  obtain l4 where l4: "mesh_line F t ''kmesh'' ''kints'' 2 = Inr l4"
    using mesh_line_ok[OF assms(3) b(3) assms(5) b(6)] by blast
  show ?thesis
    using l1 l2 l3 l4 by (simp add: tally_step_def and_then_def write_line_def file_write_def)
qed

lemma tally_step_append:
  "tally_step F t ident v f
     = (fst (tally_step F t ident v []), f @ snd (tally_step F t ident v []))"
  by (auto simp: tally_step_def and_then_def write_line_def file_write_def split: sum.splits)

lemma tally_loop_ok:
  assumes "\<forall>kv \<in> set items. fst (tally_step F t (fst kv) (snd kv) []) = None"
  shows "tally_loop F t items f
     = (None, f @ concat (map (\<lambda>kv. snd (tally_step F t (fst kv) (snd kv) [])) items))"
  using assms
proof (induction items arbitrary: f)
  case Nil
  show ?case by simp
next
  case (Cons kv items)
  have s: "tally_step F t (fst kv) (snd kv) f = (None, f @ snd (tally_step F t (fst kv) (snd kv) []))"
    using Cons.prems tally_step_append[of F t "fst kv" "snd kv" f] by simp
  have "\<forall>kv \<in> set items. fst (tally_step F t (fst kv) (snd kv) []) = None"
    using Cons.prems by simp
  from Cons.IH[OF this] show ?case by (simp add: s and_then_def)
qed

lemma tally_step_de_df:
  assumes "fst (tally_step F t ident v []) = None"
  shows "filter (\<lambda>c. take 8 c = ''#     DE'') (snd (tally_step F t ident v []))
       = (if de v \<noteq> None \<and> df v \<noteq> None
          then [parse_de_df F (the (de v)) (the (df v)) (ident @ ''4'')] else [])"
proof -
  obtain l1 l2 l3 l4 where
    l: "fmesh_line F t ident v = Inr l1" "mesh_line F t ''imesh'' ''iints'' 0 = Inr l2"
       "mesh_line F t ''jmesh'' ''jints'' 1 = Inr l3" "mesh_line F t ''kmesh'' ''kints'' 2 = Inr l4"
    and w: "snd (tally_step F t ident v []) = [] @ [l1, l2, l3, l4]
        @ (if de v \<noteq> None \<and> df v \<noteq> None
           then [parse_de_df F (the (de v)) (the (df v)) (ident @ ''4'')] else [])
        @ (if fm v \<noteq> None
           then [''FM'' @ ident @ ''4  '' @ list_to_str F (the (fm v)) @ ''\<newline>''] else [])"
    using tally_step_written[OF assms] by blast
  note n = fmesh_line_start[OF l(1)] mesh_line_start[OF l(2)] mesh_line_start[OF l(3)]
    mesh_line_start[OF l(4)]
  show ?thesis unfolding w using n by (simp add: parse_de_df_header)
qed

lemma tally_step_one_key:
  "de v = None \<or> df v = None \<Longrightarrow>
   tally_step F t ident v f = tally_step F t ident (v\<lparr>de := None, df := None\<rparr>) f"
  by (auto simp: tally_step_def fmesh_line_def cong: if_cong)

lemma filter_concat_map:
  "filter P (concat (map h xs)) = concat (map (\<lambda>x. filter P (h x)) xs)"
  by (induction xs) simp_all

lemma concat_map_if_singleton:
  "concat (map (\<lambda>x. if Q x then [h x] else []) xs) = map h (filter Q xs)"
  by (induction xs) simp_all


lemma tally_step_no_particle:
  "particle v = None \<Longrightarrow> tally_step F t ident v f = (Some (KeyError ''particle''), f)"
  by (simp add: tally_step_def fmesh_line_def write_line_def and_then_def)

lemma tally_loop_fails:
  assumes "\<forall>kv \<in> set pre. fst (tally_step F t (fst kv) (snd kv) []) = None"
    and "particle v = None"
  shows "tally_loop F t (pre @ (ident, v) # post) f
     = (Some (KeyError ''particle''),
        f @ concat (map (\<lambda>kv. snd (tally_step F t (fst kv) (snd kv) [])) pre))"
  using assms(1)
proof (induction pre arbitrary: f)
  case Nil
  show ?case by (simp add: tally_step_no_particle[OF assms(2)] and_then_def)
next
  case (Cons kv pre)
  have s: "tally_step F t (fst kv) (snd kv) f = (None, f @ snd (tally_step F t (fst kv) (snd kv) []))"
    using Cons.prems tally_step_append[of F t "fst kv" "snd kv" f] by simp
  have "\<forall>kv \<in> set pre. fst (tally_step F t (fst kv) (snd kv) []) = None"
    using Cons.prems by simp
  from Cons.IH[OF this] show ?case by (simp add: s and_then_def)
qed

text \<open>
  Claim C10, as amended. Let the tally object be built from a geometry that the
  constructor returned. If every entry of the tally configuration has the key
  \<^verbatim>\<open>particle\<close>, then \<^verbatim>\<open>Tally.to_file\<close> returns without exception; what it writes is,
  entry after entry in the order of the configuration, what the body of its loop
  writes for the entry; the strings written that start a DE/DF table (\<^verbatim>\<open>#     DE\<close>)
  are, in the same order, the tables that \<^verbatim>\<open>_parse_de_df\<close> formats for the entries with
  both the key \<^verbatim>\<open>de\<close> and the key \<^verbatim>\<open>df\<close>, so an entry gets a table if and only if it
  has both keys; and an entry with at most one of them is written exactly as the entry
  without either. At the first entry without the key \<^verbatim>\<open>particle\<close> the writer raises
  KeyError: the file holds what was written for the entries before it, and nothing for
  this entry or for a later one.
\<close>

theorem tally_writer_de_df_blocks:
  assumes "Geometry F vx md = Inr g" and "t = Tally g md (Some items)"
  shows "((\<forall>kv \<in> set items. particle (snd kv) \<noteq> None) \<longrightarrow>
        fst (Tally_to_file F t f) = None
      \<and> snd (Tally_to_file F t f)
          = f @ concat (map (\<lambda>kv. snd (tally_step F t (fst kv) (snd kv) [])) items)
      \<and> filter (\<lambda>c. take 8 c = ''#     DE'') (drop (length f) (snd (Tally_to_file F t f)))
          = map (\<lambda>kv. parse_de_df F (the (de (snd kv))) (the (df (snd kv))) (fst kv @ ''4''))
              (filter (\<lambda>kv. de (snd kv) \<noteq> None \<and> df (snd kv) \<noteq> None) items)
      \<and> (\<forall>kv \<in> set items.
           ((\<exists>c \<in> set (snd (tally_step F t (fst kv) (snd kv) [])). take 8 c = ''#     DE'')
              \<longleftrightarrow> de (snd kv) \<noteq> None \<and> df (snd kv) \<noteq> None)
         \<and> (de (snd kv) = None \<or> df (snd kv) = None \<longrightarrow>
              tally_step F t (fst kv) (snd kv) []
                = tally_step F t (fst kv) ((snd kv)\<lparr>de := None, df := None\<rparr>) [])))
     \<and> (items = pre @ (ident, v) # post \<and> (\<forall>kv \<in> set pre. particle (snd kv) \<noteq> None)
          \<and> particle v = None \<longrightarrow>
        Tally_to_file F t f
          = (Some (KeyError ''particle''),
             f @ concat (map (\<lambda>kv. snd (tally_step F t (fst kv) (snd kv) [])) pre)))"
proof (intro conjI impI)
  let ?P = "\<lambda>c. take 8 c = ''#     DE''"
  let ?step = "\<lambda>kv. snd (tally_step F t (fst kv) (snd kv) [])"
  let ?block = "\<lambda>kv. parse_de_df F (the (de (snd kv))) (the (df (snd kv))) (fst kv @ ''4'')"
  let ?both = "\<lambda>kv. de (snd kv) \<noteq> None \<and> df (snd kv) \<noteq> None"
  obtain origin limit sz where
    a: "mesh_origin t = Some origin" "length origin = 3"
       "mesh_limit t = Some limit" "length limit = 3"
       "t_size t = Some sz" "3 \<le> length sz"
    and c: "config t = Some items"
    using Tally_attributes[OF assms(1), of items] assms(2) by auto
  note step_ok = tally_step_ok[OF a]
  {
    assume "items = pre @ (ident, v) # post \<and> (\<forall>kv \<in> set pre. particle (snd kv) \<noteq> None)
      \<and> particle v = None"
    then have i: "items = pre @ (ident, v) # post" and v: "particle v = None"
      and "\<forall>kv \<in> set pre. particle (snd kv) \<noteq> None" by simp_all
    then have "\<forall>kv \<in> set pre. fst (tally_step F t (fst kv) (snd kv) []) = None"
      using step_ok by blast
    from tally_loop_fails[OF this v]
    show "Tally_to_file F t f = (Some (KeyError ''particle''), f @ concat (map ?step pre))"
      by (simp add: Tally_to_file_def c i)
  }
  assume p: "\<forall>kv \<in> set items. particle (snd kv) \<noteq> None"
  have ok: "\<forall>kv \<in> set items. fst (tally_step F t (fst kv) (snd kv) []) = None"
    using step_ok p by blast
  have w: "Tally_to_file F t f = (None, f @ concat (map ?step items))"
    by (simp add: Tally_to_file_def c tally_loop_ok[OF ok])
  show "fst (Tally_to_file F t f) = None" by (simp add: w)
  show "snd (Tally_to_file F t f) = f @ concat (map ?step items)" by (simp add: w)
  have "filter ?P (concat (map ?step items)) = concat (map (\<lambda>kv. filter ?P (?step kv)) items)"
    by (rule filter_concat_map)
  also have "\<dots> = concat (map (\<lambda>kv. if ?both kv then [?block kv] else []) items)"
    using ok by (intro arg_cong[where f = concat] map_cong refl) (simp add: tally_step_de_df)
  also have "\<dots> = map ?block (filter ?both items)"
    by (rule concat_map_if_singleton)
  finally show "filter ?P (drop (length f) (snd (Tally_to_file F t f)))
      = map ?block (filter ?both items)"
    by (simp add: w)
  show "\<forall>kv \<in> set items.
      ((\<exists>c \<in> set (?step kv). ?P c) \<longleftrightarrow> ?both kv)
    \<and> (de (snd kv) = None \<or> df (snd kv) = None \<longrightarrow>
         tally_step F t (fst kv) (snd kv) []
           = tally_step F t (fst kv) ((snd kv)\<lparr>de := None, df := None\<rparr>) [])"
  proof (intro ballI conjI impI)
    fix kv assume "kv \<in> set items"
    then have s: "fst (tally_step F t (fst kv) (snd kv) []) = None" using ok by blast
    have "(\<exists>c \<in> set (?step kv). ?P c) \<longleftrightarrow> filter ?P (?step kv) \<noteq> []"
      by (simp add: filter_empty_conv)
    then show "(\<exists>c \<in> set (?step kv). ?P c) \<longleftrightarrow> ?both kv"
      by (simp only: tally_step_de_df[OF s]) simp
  next
    fix kv :: "string \<times> tally_entry"
    assume "de (snd kv) = None \<or> df (snd kv) = None"
    then show "tally_step F t (fst kv) (snd kv) []
           = tally_step F t (fst kv) ((snd kv)\<lparr>de := None, df := None\<rparr>) []"
      by (rule tally_step_one_key)
  qed
qed

text \<open>
  Two entries, the second without \<^verbatim>\<open>df\<close>: one table, that of the first entry. And a
  configuration whose first entry has no \<^verbatim>\<open>particle\<close>: KeyError, nothing written.
\<close>

theorem tally_writer_de_df_blocks_witness:
  "\<exists>g. Geometry example_fmt (projr (CTVoxel image_222 material_two)) [''p''] = Inr g
     \<and> particle entry_de_df = Some (PyStr ''p'')
     \<and> fst (Tally_to_file example_fmt (Tally g [''p''] (Some tally_config_two)) []) = None
     \<and> filter (\<lambda>c. take 8 c = ''#     DE'')
         (snd (Tally_to_file example_fmt (Tally g [''p''] (Some tally_config_two)) []))
         = [parse_de_df example_fmt [PyInt 1, PyInt 2] [PyInt 3, PyInt 4] ''14'']
     \<and> tally_step example_fmt (Tally g [''p''] (Some tally_config_two)) ''2'' (entry_de_df\<lparr>df := None\<rparr>) []
         = tally_step example_fmt (Tally g [''p''] (Some tally_config_two)) ''2''
             (entry_de_df\<lparr>de := None, df := None\<rparr>) []
     \<and> particle entry_no_particle = None
     \<and> Tally_to_file example_fmt (Tally g [''p''] (Some tally_config_no_particle)) []
         = (Some (KeyError ''particle''), [])"
proof -
  let ?v = "projr (CTVoxel image_222 material_two)"
  have v: "size_vec ?v = [2, 2, 2]" "spacing ?v = [1, 1, 1]"
    using CTVoxel_222_geometry by (cases "CTVoxel image_222 material_two"; simp)+
  have "\<not> isl (Geometry example_fmt ?v [''p''])"
    by (rule Geometry_ok) (simp_all add: v)
  then obtain g where g: "Geometry example_fmt ?v [''p''] = Inr g"
    by (cases "Geometry example_fmt ?v [''p'']") auto
  have p: "\<forall>kv \<in> set tally_config_two. particle (snd kv) \<noteq> None"
    by (simp add: tally_config_two_def entry_de_df_def)
  have m: "(''2'', entry_de_df\<lparr>df := None\<rparr>) \<in> set tally_config_two"
    by (simp add: tally_config_two_def)
  note t = mp[OF conjunct1[OF tally_writer_de_df_blocks[OF g refl, of tally_config_two "[]"]] p]
  have a: "fst (Tally_to_file example_fmt (Tally g [''p''] (Some tally_config_two)) []) = None"
    by (rule conjunct1[OF t])
  have "filter (\<lambda>c. take 8 c = ''#     DE'')
         (snd (Tally_to_file example_fmt (Tally g [''p''] (Some tally_config_two)) []))
      = map (\<lambda>kv. parse_de_df example_fmt (the (de (snd kv))) (the (df (snd kv))) (fst kv @ ''4''))
          (filter (\<lambda>kv. de (snd kv) \<noteq> None \<and> df (snd kv) \<noteq> None) tally_config_two)"
    using conjunct1[OF conjunct2[OF conjunct2[OF t]]] by simp
  also have "\<dots> = [parse_de_df example_fmt [PyInt 1, PyInt 2] [PyInt 3, PyInt 4] ''14'']"
    by (simp add: tally_config_two_def entry_de_df_def)
  finally have b: "filter (\<lambda>c. take 8 c = ''#     DE'')
         (snd (Tally_to_file example_fmt (Tally g [''p''] (Some tally_config_two)) []))
      = [parse_de_df example_fmt [PyInt 1, PyInt 2] [PyInt 3, PyInt 4] ''14'']" .
  have c: "tally_step example_fmt (Tally g [''p''] (Some tally_config_two)) ''2'' (entry_de_df\<lparr>df := None\<rparr>) []
         = tally_step example_fmt (Tally g [''p''] (Some tally_config_two)) ''2''
             (entry_de_df\<lparr>de := None, df := None\<rparr>) []"
    using conjunct2[OF bspec[OF conjunct2[OF conjunct2[OF conjunct2[OF t]]] m]] by simp
  have d: "particle entry_de_df = Some (PyStr ''p'')" "particle entry_no_particle = None"
    by (simp_all add: entry_de_df_def entry_no_particle_def)
  have "tally_config_no_particle = [] @ (''1'', entry_no_particle) # [(''2'', entry_de_df)]
      \<and> (\<forall>kv \<in> set []. particle (snd kv) \<noteq> None) \<and> particle entry_no_particle = None"
    by (simp add: tally_config_no_particle_def d)
  from mp[OF conjunct2[OF tally_writer_de_df_blocks[OF g refl,
        where items = tally_config_no_particle and f = "[]" and pre = "[]" and ident = "''1''"
          and v = entry_no_particle and post = "[(''2'', entry_de_df)]"]] this]
  have e: "Tally_to_file example_fmt (Tally g [''p''] (Some tally_config_no_particle)) []
         = (Some (KeyError ''particle''), [])"
    by simp
  from g a b c d e show ?thesis by blast
qed

text \<open>
  Claim C10 as the specification states it fails for an entry that has both \<^verbatim>\<open>de\<close>
  and \<^verbatim>\<open>df\<close> but no \<^verbatim>\<open>particle\<close>: the writer raises KeyError before it writes
  anything, so neither this entry nor the complete entry after it gets a table.
\<close>

theorem missing_particle_counterexample:
  "de entry_no_particle = Some [PyInt 1, PyInt 2] \<and> df entry_no_particle = Some [PyInt 3, PyInt 4]
   \<and> Tally_to_file example_fmt (tally_222\<lparr>config := Some tally_config_no_particle\<rparr>) []
        = (Some (KeyError ''particle''), [])"
  by (simp add: Tally_to_file_def tally_config_no_particle_def entry_no_particle_def tally_step_def
      and_then_def write_line_def fmesh_line_def)

section \<open>The run configuration\<close>

lemma config_keys_iff:
  "''material'' \<in> set (config_keys c) \<longleftrightarrow> cfg_material c \<noteq> None"
  "''mode'' \<in> set (config_keys c) \<longleftrightarrow> cfg_mode c \<noteq> None"
  "''source'' \<in> set (config_keys c) \<longleftrightarrow> cfg_source c \<noteq> None"
  "''tally'' \<in> set (config_keys c) \<longleftrightarrow> cfg_tally c \<noteq> None"
  "''outcontrol'' \<in> set (config_keys c) \<longleftrightarrow> cfg_outcontrol c \<noteq> None"
  by (simp_all add: config_keys_def)

lemma default_cards_fields:
  "cfg_material (default_cards c) = cfg_material c"
  "cfg_mode (default_cards c) = cfg_mode c"
  "cfg_source (default_cards c) = (if cfg_source c = None then Some None else cfg_source c)"
  "cfg_tally (default_cards c) = (if cfg_tally c = None then Some None else cfg_tally c)"
  "cfg_outcontrol (default_cards c) = (if cfg_outcontrol c = None then Some None else cfg_outcontrol c)"
  by (simp_all add: default_cards_def Let_def config_keys_iff)

lemma default_cards_present:
  "cfg_source (default_cards c) \<noteq> None"
  "cfg_tally (default_cards c) \<noteq> None"
  "cfg_outcontrol (default_cards c) \<noteq> None"
  by (simp_all add: default_cards_fields)

lemma config_get_present: "field \<noteq> None \<Longrightarrow> config_get key field = Inr (the field)"
  by (auto simp: config_get_def)

lemma then_do_Inr: "then_do (Inr x) k = k x"
  by (simp add: then_do_def)

lemma then_do_Inl: "then_do (Inl e) k = Inl e"
  by (simp add: then_do_def)

lemma init_MC_module_steps:
  assumes "cfg_material c = Some m" "cfg_mode c = Some md"
  shows "init_MC_module F ct c =
     then_do (CTVoxel ct m) (\<lambda>vx.
     then_do (Geometry F vx md) (\<lambda>gm.
     then_do (Source F (the (cfg_source (default_cards c)))) (\<lambda>src.
       Inr \<lparr>gen_config = default_cards c, voxel = vx, material = element_table vx, geom = gm,
            gen_source = src, gen_tally = Tally gm md (the (cfg_tally (default_cards c))),
            out = OutControl F (the (cfg_outcontrol (default_cards c)))\<rparr>)))"
proof -
  have k: "''material'' \<in> set (config_keys c) \<and> ''mode'' \<in> set (config_keys c)"
    using assms by (simp add: config_keys_iff)
  have g: "config_get ''material'' (cfg_material (default_cards c)) = Inr m"
    "config_get ''mode'' (cfg_mode (default_cards c)) = Inr md"
    "config_get ''source'' (cfg_source (default_cards c)) = Inr (the (cfg_source (default_cards c)))"
    "config_get ''tally'' (cfg_tally (default_cards c)) = Inr (the (cfg_tally (default_cards c)))"
    "config_get ''outcontrol'' (cfg_outcontrol (default_cards c))
       = Inr (the (cfg_outcontrol (default_cards c)))"
    using assms
    by (simp_all add: config_get_present default_cards_present default_cards_fields(1,2))
  show ?thesis
    unfolding init_MC_module_def Let_def
    by (simp only: k g then_do_Inr simp_thms if_False)
qed

section \<open>Writing without exception\<close>

lemma and_then_None: "and_then (None, f) k = k f"
  by (simp add: and_then_def)

lemma and_then_Some: "and_then (Some e, f) k = (Some e, f)"
  by (simp add: and_then_def)

lemma fst_None_pair: "fst w = None \<Longrightarrow> \<exists>f. w = (None, f)"
  by (cases w) simp

lemma parse_material_loop_keys:
  assumes "parse_material_loop m (raw, et, dt, ks) = Inr (raw', et', dt', ks')"
    and "set ks \<subseteq> dom dt"
  shows "set ks' \<subseteq> dom dt'"
  using assms
proof (induction m arbitrary: raw et dt ks)
  case Nil
  then show ?case by simp
next
  case (Cons p m)
  obtain i e where p: "p = (i, e)" by (cases p)
  from Cons.prems(1) obtain n hu nu fr d where
    e: "i = Some n" "m_hu_interval e = Some hu" "m_nucleon e = Some nu" "m_fraction e = Some fr"
      "m_density e = Some d"
    and rest: "parse_material_loop m
        (raw @ hu, AList.update n (dict_of_pairs (zip nu fr)) et, dt(n \<mapsto> d), ks @ [n])
        = Inr (raw', et', dt', ks')"
    unfolding p by (auto split: option.splits)
  have "set (ks @ [n]) \<subseteq> dom (dt(n \<mapsto> d))" using Cons.prems(2) by auto
  then show ?case by (rule Cons.IH[OF rest])
qed

lemma CTVoxel_keys:
  assumes "CTVoxel ct m = Inr v"
  shows "set (keys v) \<subseteq> dom (density_table v)"
proof -
  have "parse_material m = Inr (hu_interval v, element_table v, density_table v, keys v)"
    by (rule CTVoxel_InrD(6)[OF assms])
  then obtain raw where
    "parse_material_loop m ([], [], Map.empty, []) = Inr (raw, element_table v, density_table v, keys v)"
    by (auto simp: parse_material_def then_do_def split: sum.splits)
  then show ?thesis using parse_material_loop_keys by fastforce
qed

lemma parse_material_loop_no_density:
  assumes "(i, e) \<in> set m" and "m_density e = None"
  shows "(\<exists>k. parse_material_loop m acc = Inl (KeyError k))
       \<or> (parse_material_loop m acc = Inl ValueError \<and> None \<in> fst ` set m)"
  using assms
proof (induction m arbitrary: acc)
  case Nil
  then show ?case by simp
next
  case (Cons p m)
  obtain j e' where p: "p = (j, e')" by (cases p)
  obtain raw et dt ks where acc: "acc = (raw, et, dt, ks)" by (cases acc)
  show ?case
  proof (cases "p = (i, e)")
    case True
    then show ?thesis using Cons.prems(2) acc by (auto split: option.splits)
  next
    case False
    then have "(i, e) \<in> set m" using Cons.prems(1) by simp
    from Cons.IH[OF this Cons.prems(2)] show ?thesis
      unfolding p acc by (auto split: option.splits)
  qed
qed

lemma cells_step_ok: "density_table g i \<noteq> None \<Longrightarrow> fst (cells_step F g i f) = None"
  by (auto simp: cells_step_def and_then_def file_write_def)

lemma cells_loop_ok:
  "\<forall>i\<in>set ks. density_table g i \<noteq> None \<Longrightarrow> fst (cells_loop F g ks f) = None"
proof (induction ks arbitrary: f)
  case Nil
  show ?case by simp
next
  case (Cons i ks)
  have "fst (cells_step F g i f) = None" using Cons.prems by (intro cells_step_ok) simp
  then obtain f1 where "cells_step F g i f = (None, f1)" using fst_None_pair by blast
  then show ?case using Cons by (simp add: and_then_None)
qed

lemma Geometry_to_file_ok:
  assumes "set (keys g) \<subseteq> dom (density_table g)"
  shows "fst (Geometry_to_file F g f) = None"
proof -
  have "fst (cells_loop F g (keys g) f) = None"
    using assms by (intro cells_loop_ok) auto
  then obtain f1 where "cells_loop F g (keys g) f = (None, f1)" using fst_None_pair by blast
  then show ?thesis
    by (simp add: Geometry_to_file_def and_then_None file_write_def)
qed

text \<open>
  In the text that \<^verbatim>\<open>Geometry.to_file\<close> writes, the fill list stands between the
  line of the lattice card and the card of the phantom cell.
\<close>

lemma Geometry_to_file_fill_list:
  assumes "set (keys g) \<subseteq> dom (density_table g)"
  shows "\<exists>before after.
     file_text (snd (Geometry_to_file F g f))
       = before @ ''     lat=1  '' @ fill g @ ''\<newline>'' @ fill_list_text g
         @ ''999  0  '' @ phantom_cell_geom g @ ''  fill=999 imp:'' @ mode g @ ''=1\<newline>'' @ after"
proof -
  have "fst (cells_loop F g (keys g) f) = None"
    using assms by (intro cells_loop_ok) auto
  then obtain f1 where c: "cells_loop F g (keys g) f = (None, f1)" using fst_None_pair by blast
  let ?n = "prod_list (size_vec g)"
  let ?vs = "data (index_map g)"
  have l: "\<And>h. h \<noteq> [] \<Longrightarrow> fill_loop ?vs 1 ?n h = h @ fill_loop ?vs 1 ?n []"
    by (rule fill_loop_append)
  show ?thesis
    apply (rule exI[of _ "concat f1 @ ''998  0  '' @ base_cell_geom g @ '' u=999 imp:'' @ mode g @ ''=1\<newline>''"])
    apply (rule exI[of _ "''1000  1  -0.00129  -1000 #999 imp:'' @ mode g @ ''=1\<newline>''
        @ ''9999  0  1000  imp:'' @ mode g @ ''=0\<newline>'' @ ''\<newline>''
        @ concat (base_cell_surfaces g) @ concat (phantom_cell_surfaces g) @ word_cell_surface g"])
    apply (simp add: Geometry_to_file_def c and_then_None file_write_def l file_text_def
        fill_list_text_def)
    done
qed

lemma Material_to_file_ok: "fst (Material_to_file F table f) = None"
  by (simp add: Material_to_file_def)

lemma to_file_without_si_sp:
  assumes "set (keys (geom gen)) \<subseteq> dom (density_table (geom gen))"
    and "si_sp_str (gen_source gen) = None"
  shows "\<exists>f. to_file F gen = (Some (AttributeError ''si_sp_str''), f @ [source_str (gen_source gen)])"
proof -
  obtain f1 where g: "Geometry_to_file F (geom gen) [''c Geometry\<newline>''] = (None, f1)"
    using Geometry_to_file_ok[OF assms(1)] fst_None_pair by blast
  obtain f2 where m: "Material_to_file F (material gen) (f1 @ [''\<newline>'', ''c Data\<newline>'']) = (None, f2)"
    using Material_to_file_ok fst_None_pair by blast
  have s: "Source_to_file (gen_source gen) f2
             = (Some (AttributeError ''si_sp_str''), f2 @ [source_str (gen_source gen)])"
    using assms(2) by (simp add: Source_to_file_def and_then_None file_write_def)
  have "to_file F gen = (Some (AttributeError ''si_sp_str''), f2 @ [source_str (gen_source gen)])"
    unfolding to_file_def
    by (simp add: file_write_def and_then_None g m s and_then_Some)
  then show ?thesis by blast
qed

lemma init_MC_module_InrD:
  assumes "init_MC_module F ct c = Inr gen"
  shows "\<exists>m md vx. cfg_material c = Some m \<and> cfg_mode c = Some md \<and> CTVoxel ct m = Inr vx
     \<and> Geometry F vx md = Inr (geom gen)
     \<and> Source F (the (cfg_source (default_cards c))) = Inr (gen_source gen)
     \<and> gen_tally gen = Tally (geom gen) md (the (cfg_tally (default_cards c)))
     \<and> out gen = OutControl F (the (cfg_outcontrol (default_cards c)))
     \<and> material gen = element_table vx \<and> voxel gen = vx \<and> gen_config gen = default_cards c"
proof -
  have "''material'' \<in> set (config_keys c) \<and> ''mode'' \<in> set (config_keys c)"
    using assms unfolding init_MC_module_def by (auto split: if_splits)
  then obtain m md where c: "cfg_material c = Some m" "cfg_mode c = Some md"
    by (auto simp: config_keys_iff)
  note s = init_MC_module_steps[OF c, of F ct]
  from assms obtain vx where vx: "CTVoxel ct m = Inr vx"
    unfolding s by (cases "CTVoxel ct m") (simp_all add: then_do_Inl)
  from assms obtain gm where gm: "Geometry F vx md = Inr gm"
    unfolding s vx then_do_Inr by (cases "Geometry F vx md") (simp_all add: then_do_Inl)
  from assms obtain src where src: "Source F (the (cfg_source (default_cards c))) = Inr src"
    unfolding s vx gm then_do_Inr
    by (cases "Source F (the (cfg_source (default_cards c)))") (simp_all add: then_do_Inl)
  have "gen = \<lparr>gen_config = default_cards c, voxel = vx, material = element_table vx, geom = gm,
            gen_source = src, gen_tally = Tally gm md (the (cfg_tally (default_cards c))),
            out = OutControl F (the (cfg_outcontrol (default_cards c)))\<rparr>"
    using assms unfolding s vx gm src then_do_Inr by simp
  then show ?thesis using c vx gm src by simp
qed

lemma init_MC_module_keys:
  assumes "init_MC_module F ct c = Inr gen"
  shows "set (keys (geom gen)) \<subseteq> dom (density_table (geom gen))"
proof -
  obtain m md vx where "CTVoxel ct m = Inr vx" "Geometry F vx md = Inr (geom gen)"
    using init_MC_module_InrD[OF assms] by blast
  then show ?thesis
    using CTVoxel_keys[of ct m vx] Geometry_InrD(4,6)[of F vx md "geom gen"] by simp
qed

lemma Source_None: "Source F None = Inr \<lparr>source_str = ''SDEF\<newline>'', si_sp_str = None, si_sp_id = None\<rparr>"
  by (simp add: Source_def)

lemma run_without_source:
  assumes "cfg_source c = None" and "init_MC_module F ct c = Inr gen"
  shows "\<exists>f. run F ct c = (Some (AttributeError ''si_sp_str''), Some (f @ [''SDEF\<newline>'']))"
proof -
  have "Source F (the (cfg_source (default_cards c))) = Inr (gen_source gen)"
    using init_MC_module_InrD[OF assms(2)] by blast
  then have src: "gen_source gen = \<lparr>source_str = ''SDEF\<newline>'', si_sp_str = None, si_sp_id = None\<rparr>"
    using assms(1) by (simp add: default_cards_fields Source_None)
  obtain f where "to_file F gen = (Some (AttributeError ''si_sp_str''), f @ [source_str (gen_source gen)])"
    using to_file_without_si_sp[OF init_MC_module_keys[OF assms(2)], of F] src by auto
  then show ?thesis using assms(2) src by (simp add: run_def)
qed

lemma init_MC_module_ok:
  assumes "cfg_material c = Some m" "cfg_mode c = Some md" "CTVoxel ct m = Inr vx"
    and "3 \<le> length (size_vec vx)" "length (spacing vx) = length (size_vec vx)"
    and "\<not> isl (Source F (the (cfg_source (default_cards c))))"
  shows "\<not> isl (init_MC_module F ct c)"
proof -
  have "\<not> isl (Geometry F vx md)" using assms(4,5) by (rule Geometry_ok)
  then obtain gm where gm: "Geometry F vx md = Inr gm" by (cases "Geometry F vx md") auto
  obtain src where src: "Source F (the (cfg_source (default_cards c))) = Inr src"
    using assms(6) by (cases "Source F (the (cfg_source (default_cards c)))") auto
  show ?thesis
    unfolding init_MC_module_steps[OF assms(1,2)] assms(3) gm src then_do_Inr by simp
qed

lemma init_minimal: "\<not> isl (init_MC_module example_fmt image_222 config_minimal)"
proof -
  obtain vx where v: "CTVoxel image_222 material_two = Inr vx"
    using CTVoxel_222 by (cases "CTVoxel image_222 material_two") auto
  have sz: "size_vec vx = [2, 2, 2]" "spacing vx = [1, 1, 1]"
    using CTVoxel_222_geometry unfolding v by simp_all
  have c: "cfg_material config_minimal = Some material_two" "cfg_mode config_minimal = Some [''p'']"
    "cfg_source config_minimal = None"
    by (simp_all add: config_minimal_def)
  show ?thesis
  proof (rule init_MC_module_ok[OF c(1,2) v])
    show "3 \<le> length (size_vec vx)" "length (spacing vx) = length (size_vec vx)"
      by (simp_all add: sz)
    show "\<not> isl (Source example_fmt (the (cfg_source (default_cards config_minimal))))"
      by (simp add: default_cards_fields c(3) Source_None)
  qed
qed

lemma to_file_ok:
  assumes "set (keys (geom gen)) \<subseteq> dom (density_table (geom gen))"
    and "si_sp_str (gen_source gen) = Some s" and "config (gen_tally gen) = None"
  shows "fst (to_file F gen) = None"
proof -
  obtain f1 where g: "Geometry_to_file F (geom gen) [''c Geometry\<newline>''] = (None, f1)"
    using Geometry_to_file_ok[OF assms(1)] fst_None_pair by blast
  obtain f2 where m: "Material_to_file F (material gen) (f1 @ [''\<newline>'', ''c Data\<newline>'']) = (None, f2)"
    using Material_to_file_ok fst_None_pair by blast
  have s: "Source_to_file (gen_source gen) f2 = (None, f2 @ [source_str (gen_source gen), s])"
    using assms(2) by (simp add: Source_to_file_def and_then_None file_write_def)
  have t: "Tally_to_file F (gen_tally gen) (f2 @ [source_str (gen_source gen), s])
      = (None, f2 @ [source_str (gen_source gen), s])"
    using assms(3) by (simp add: Tally_to_file_def)
  show ?thesis
    unfolding to_file_def
    by (simp add: file_write_def and_then_None g m s t)
qed

lemma CTVoxel_fails:
  assumes "(i, e) \<in> set m" and "m_density e = None"
  shows "(\<exists>k. CTVoxel ct m = Inl (KeyError k))
       \<or> (CTVoxel ct m = Inl ValueError \<and> None \<in> fst ` set m)"
proof -
  have "\<And>x. parse_material_loop m ([], [], Map.empty, []) = Inl x \<Longrightarrow> CTVoxel ct m = Inl x"
    by (simp add: CTVoxel_def parse_material_def then_do_Inl Let_def)
  then show ?thesis
    using parse_material_loop_no_density[OF assms, of "([], [], Map.empty, [])"] by auto
qed

lemma CTVoxel_one:
  "map_sum id (\<lambda>v. (size_vec v, spacing v, data (index_map v), density_table v 2))
     (CTVoxel image_222 material_one)
   = Inr ([2, 2, 2], [1, 1, 1], [1, 1, 2, 2, 2, 1, 1, 2], None)"
  by (simp add: image_222_def material_one_def eval_simps)

section \<open>The deck assembler's checks\<close>

text \<open>
  Claim C7, as amended. Without the key \<^verbatim>\<open>material\<close> or without the key
  \<^verbatim>\<open>mode\<close> the assembler fails with the AssertionError of its \<^verbatim>\<open>assert\<close>
  statement, and the output file is never opened. With both keys, each of
  \<^verbatim>\<open>source\<close>, \<^verbatim>\<open>tally\<close> and \<^verbatim>\<open>outcontrol\<close> that is missing gets the value
  \<^verbatim>\<open>None\<close>, and the initialisation goes on to build the classifier, the geometry
  and the writers from the configuration so completed: no lookup of a key fails.
\<close>

theorem init_MC_module_validates:
  "(''material'' \<notin> set (config_keys c) \<or> ''mode'' \<notin> set (config_keys c) \<longrightarrow>
      init_MC_module F ct c = Inl AssertionError \<and> run F ct c = (Some AssertionError, None))
   \<and> (''material'' \<in> set (config_keys c) \<and> ''mode'' \<in> set (config_keys c) \<longrightarrow>
        (''source'' \<notin> set (config_keys c) \<longrightarrow> cfg_source (default_cards c) = Some None)
      \<and> (''tally'' \<notin> set (config_keys c) \<longrightarrow> cfg_tally (default_cards c) = Some None)
      \<and> (''outcontrol'' \<notin> set (config_keys c) \<longrightarrow> cfg_outcontrol (default_cards c) = Some None)
      \<and> init_MC_module F ct c =
          then_do (CTVoxel ct (the (cfg_material c))) (\<lambda>vx.
          then_do (Geometry F vx (the (cfg_mode c))) (\<lambda>gm.
          then_do (Source F (the (cfg_source (default_cards c)))) (\<lambda>src.
            Inr \<lparr>gen_config = default_cards c, voxel = vx, material = element_table vx, geom = gm,
                 gen_source = src, gen_tally = Tally gm (the (cfg_mode c)) (the (cfg_tally (default_cards c))),
                 out = OutControl F (the (cfg_outcontrol (default_cards c)))\<rparr>))))"
proof (intro conjI impI)
  assume "''material'' \<notin> set (config_keys c) \<or> ''mode'' \<notin> set (config_keys c)"
  then show "init_MC_module F ct c = Inl AssertionError"
    by (auto simp: init_MC_module_def)
  then show "run F ct c = (Some AssertionError, None)"
    by (simp add: run_def)
next
  assume "''source'' \<notin> set (config_keys c)"
  then show "cfg_source (default_cards c) = Some None"
    by (simp add: default_cards_fields config_keys_iff)
next
  assume "''tally'' \<notin> set (config_keys c)"
  then show "cfg_tally (default_cards c) = Some None"
    by (simp add: default_cards_fields config_keys_iff)
next
  assume "''outcontrol'' \<notin> set (config_keys c)"
  then show "cfg_outcontrol (default_cards c) = Some None"
    by (simp add: default_cards_fields config_keys_iff)
next
  assume "''material'' \<in> set (config_keys c) \<and> ''mode'' \<in> set (config_keys c)"
  then obtain m md where "cfg_material c = Some m" "cfg_mode c = Some md"
    by (auto simp: config_keys_iff)
  then show "init_MC_module F ct c =
          then_do (CTVoxel ct (the (cfg_material c))) (\<lambda>vx.
          then_do (Geometry F vx (the (cfg_mode c))) (\<lambda>gm.
          then_do (Source F (the (cfg_source (default_cards c)))) (\<lambda>src.
            Inr \<lparr>gen_config = default_cards c, voxel = vx, material = element_table vx, geom = gm,
                 gen_source = src, gen_tally = Tally gm (the (cfg_mode c)) (the (cfg_tally (default_cards c))),
                 out = OutControl F (the (cfg_outcontrol (default_cards c)))\<rparr>)))"
    using init_MC_module_steps[of c m md F ct] by simp
qed

text \<open>
  A configuration without \<^verbatim>\<open>mode\<close> is rejected before the file is opened; one with
  \<^verbatim>\<open>material\<close> and \<^verbatim>\<open>mode\<close> only gets \<^verbatim>\<open>source\<close> set to \<^verbatim>\<open>None\<close> and is
  initialised.
\<close>

theorem init_MC_module_validates_witness:
  "''mode'' \<notin> set (config_keys config_no_mode)
   \<and> run example_fmt image_222 config_no_mode = (Some AssertionError, None)
   \<and> ''material'' \<in> set (config_keys config_minimal) \<and> ''mode'' \<in> set (config_keys config_minimal)
   \<and> ''source'' \<notin> set (config_keys config_minimal)
   \<and> cfg_source (default_cards config_minimal) = Some None
   \<and> \<not> isl (init_MC_module example_fmt image_222 config_minimal)"
proof -
  have a: "''mode'' \<notin> set (config_keys config_no_mode)"
    by (simp add: config_keys_def config_no_mode_def)
  have b: "''material'' \<in> set (config_keys config_minimal) \<and> ''mode'' \<in> set (config_keys config_minimal)"
    "''source'' \<notin> set (config_keys config_minimal)"
    by (simp_all add: config_keys_def config_minimal_def)
  have "run example_fmt image_222 config_no_mode = (Some AssertionError, None)"
    using init_MC_module_validates[of config_no_mode example_fmt image_222] a by blast
  moreover have "cfg_source (default_cards config_minimal) = Some None"
    using init_MC_module_validates[of config_minimal example_fmt image_222] b by blast
  ultimately show ?thesis using a b init_minimal by blast
qed

text \<open>
  Claim C7 as the specification states it fails for a configuration without
  \<^verbatim>\<open>mode\<close>: the claim asks for a ConfigurationError; the module defines no such
  exception, and what the run raises is an AssertionError.
\<close>

theorem missing_mode_counterexample:
  "run example_fmt image_222 config_no_mode = (Some AssertionError, None)"
  by (simp add: run_def init_MC_module_def config_keys_def config_no_mode_def)

text \<open>
  Claim C5. Without the keys \<^verbatim>\<open>source\<close> and \<^verbatim>\<open>tally\<close> the claim asks for a
  successful run. The run fails: the constructor of \<^verbatim>\<open>Source\<close> returns before it
  assigns \<open>si_sp_str\<close>, and \<^verbatim>\<open>Source.to_file\<close> reads that attribute right after it
  has written the line \<^verbatim>\<open>SDEF\<close>, which is the last text in the file. This holds for
  every configuration without the key \<^verbatim>\<open>source\<close> (lemma \<open>run_without_source\<close>); the
  theorem is the run on the image and the configuration of the examples.
\<close>

theorem absent_source_run:
  "fst (run example_fmt image_222 config_minimal) = Some (AttributeError ''si_sp_str'')
   \<and> last (the (snd (run example_fmt image_222 config_minimal))) = ''SDEF\<newline>''"
proof -
  obtain gen where gen: "init_MC_module example_fmt image_222 config_minimal = Inr gen"
    using init_minimal by (cases "init_MC_module example_fmt image_222 config_minimal") auto
  have c: "cfg_source config_minimal = None" by (simp add: config_minimal_def)
  from run_without_source[OF c gen] obtain f where
    r: "run example_fmt image_222 config_minimal
       = (Some (AttributeError ''si_sp_str''), Some (f @ [''SDEF\<newline>'']))"
    by blast
  show ?thesis unfolding r by simp
qed

text \<open>
  Claim C6, as amended. If an entry of the material configuration has no density, the
  run fails before the output file is opened: with AssertionError when the
  configuration has no key \<^verbatim>\<open>mode\<close>; otherwise while the material table is parsed, with
  a KeyError, or with the ValueError of \<^verbatim>\<open>int(i)\<close>, which needs a material key that is
  not an integer. Hence, when the modules have been built, every material key has a
  density and the cell cards of \<^verbatim>\<open>Geometry.to_file\<close> are written without exception.
\<close>

theorem missing_density_fails:
  "(cfg_material c = Some m \<and> (i, e) \<in> set m \<and> m_density e = None \<longrightarrow>
      (cfg_mode c = None \<longrightarrow> run F ct c = (Some AssertionError, None))
    \<and> (cfg_mode c \<noteq> None \<longrightarrow>
         (\<exists>k. run F ct c = (Some (KeyError k), None))
       \<or> (run F ct c = (Some ValueError, None) \<and> None \<in> fst ` set m)))
   \<and> (init_MC_module F ct c = Inr gen \<longrightarrow>
        set (keys (geom gen)) \<subseteq> dom (density_table (geom gen))
      \<and> fst (Geometry_to_file F (geom gen) f) = None)"
proof (intro conjI impI)
  assume "cfg_mode c = None"
  then have "init_MC_module F ct c = Inl AssertionError"
    by (simp add: init_MC_module_def config_keys_iff)
  then show "run F ct c = (Some AssertionError, None)" by (simp add: run_def)
next
  assume a: "cfg_material c = Some m \<and> (i, e) \<in> set m \<and> m_density e = None"
    and "cfg_mode c \<noteq> None"
  then obtain md where md: "cfg_mode c = Some md" by auto
  from a have ie: "(i, e) \<in> set m" "m_density e = None" by simp_all
  have steps: "\<And>x. CTVoxel ct m = Inl x \<Longrightarrow> run F ct c = (Some x, None)"
    using a md by (simp add: run_def init_MC_module_steps[of c m md] then_do_Inl)
  from CTVoxel_fails[OF ie, of ct]
  show "(\<exists>k. run F ct c = (Some (KeyError k), None))
      \<or> (run F ct c = (Some ValueError, None) \<and> None \<in> fst ` set m)"
  proof
    assume "\<exists>k. CTVoxel ct m = Inl (KeyError k)"
    then obtain k where "CTVoxel ct m = Inl (KeyError k)" by blast
    then have "run F ct c = (Some (KeyError k), None)" by (rule steps)
    then show ?thesis by blast
  next
    assume v: "CTVoxel ct m = Inl ValueError \<and> None \<in> fst ` set m"
    then have "run F ct c = (Some ValueError, None)" by (intro steps) simp
    then show ?thesis using v by blast
  qed
next
  assume g: "init_MC_module F ct c = Inr gen"
  show "set (keys (geom gen)) \<subseteq> dom (density_table (geom gen))"
    by (rule init_MC_module_keys[OF g])
  then show "fst (Geometry_to_file F (geom gen) f) = None"
    by (rule Geometry_to_file_ok)
qed

text \<open>
  A material without density: KeyError for the key \<^verbatim>\<open>density\<close> when the configuration
  has a mode, AssertionError when it has none, and no file in either case.
\<close>

theorem missing_density_fails_witness:
  "cfg_material config_no_density = Some material_no_density \<and> cfg_mode config_no_density \<noteq> None
   \<and> m_density (snd (hd material_no_density)) = None
   \<and> run example_fmt image_222 config_no_density = (Some (KeyError ''density''), None)
   \<and> cfg_mode (config_no_density\<lparr>cfg_mode := None\<rparr>) = None
   \<and> run example_fmt image_222 (config_no_density\<lparr>cfg_mode := None\<rparr>) = (Some AssertionError, None)"
proof -
  have c: "cfg_material config_no_density = Some material_no_density" "cfg_mode config_no_density \<noteq> None"
      "(fst (hd material_no_density), snd (hd material_no_density)) \<in> set material_no_density"
      "m_density (snd (hd material_no_density)) = None"
    by (simp_all add: config_no_density_def material_no_density_def)
  have c': "cfg_material (config_no_density\<lparr>cfg_mode := None\<rparr>) = Some material_no_density"
      "cfg_mode (config_no_density\<lparr>cfg_mode := None\<rparr>) = None"
    by (simp_all add: config_no_density_def)
  have d: "(\<exists>k. run example_fmt image_222 config_no_density = (Some (KeyError k), None))
      \<or> (run example_fmt image_222 config_no_density = (Some ValueError, None)
          \<and> None \<in> fst ` set material_no_density)"
    using conjunct1[OF missing_density_fails[of config_no_density material_no_density
        "fst (hd material_no_density)" "snd (hd material_no_density)"]] c
    by blast
  have "CTVoxel image_222 material_no_density = Inl (KeyError ''density'')"
    by (simp add: CTVoxel_def parse_material_def then_do_def material_no_density_def Let_def)
  then have "init_MC_module example_fmt image_222 config_no_density = Inl (KeyError ''density'')"
    by (simp add: init_MC_module_steps[of _ material_no_density "[''p'']"] config_no_density_def then_do_Inl)
  then have r: "run example_fmt image_222 config_no_density = (Some (KeyError ''density''), None)"
    by (simp add: run_def)
  have "run example_fmt image_222 (config_no_density\<lparr>cfg_mode := None\<rparr>) = (Some AssertionError, None)"
    using conjunct1[OF missing_density_fails[of "config_no_density\<lparr>cfg_mode := None\<rparr>" material_no_density
        "fst (hd material_no_density)" "snd (hd material_no_density)"]] c' c(3,4)
    by blast
  then show ?thesis using c c' r d by simp
qed

text \<open>
  Claim C6 as the specification states it fails for an index that only the fill list
  refers to: with one material and the boundaries -1000, 0 and 3000 the fill list
  contains the index 2, the density table has no entry for 2, and the run succeeds.
\<close>

theorem unlisted_fill_index_counterexample:
  "fst (run example_fmt image_222 config_one) = None
   \<and> 2 \<in> set (data (index_map (geom (projr (init_MC_module example_fmt image_222 config_one)))))
   \<and> density_table (geom (projr (init_MC_module example_fmt image_222 config_one))) 2 = None"
proof -
  obtain vx where v: "CTVoxel image_222 material_one = Inr vx"
    using CTVoxel_one by (cases "CTVoxel image_222 material_one") auto
  have f: "size_vec vx = [2, 2, 2]" "spacing vx = [1, 1, 1]"
    "data (index_map vx) = [1, 1, 2, 2, 2, 1, 1, 2]" "density_table vx 2 = None"
    using CTVoxel_one unfolding v by simp_all
  have c: "cfg_material config_one = Some material_one" "cfg_mode config_one = Some [''p'']"
    "cfg_source config_one = Some (Some [])" "cfg_tally config_one = None"
    by (simp_all add: config_one_def)
  have src: "Source example_fmt (Some [])
      = Inr \<lparr>source_str = ''SDEF\<newline>'', si_sp_str = Some '''', si_sp_id = Some 0\<rparr>"
    by (simp add: Source_def then_do_def)
  have "\<not> isl (init_MC_module example_fmt image_222 config_one)"
  proof (rule init_MC_module_ok[OF c(1,2) v])
    show "3 \<le> length (size_vec vx)" "length (spacing vx) = length (size_vec vx)"
      by (simp_all add: f)
    show "\<not> isl (Source example_fmt (the (cfg_source (default_cards config_one))))"
      by (simp add: default_cards_fields c(3) src)
  qed
  then obtain gen where gen: "init_MC_module example_fmt image_222 config_one = Inr gen"
    by (cases "init_MC_module example_fmt image_222 config_one") auto
  obtain m md vx' where d: "cfg_material config_one = Some m" "cfg_mode config_one = Some md"
    "CTVoxel image_222 m = Inr vx'" "Geometry example_fmt vx' md = Inr (geom gen)"
    "Source example_fmt (the (cfg_source (default_cards config_one))) = Inr (gen_source gen)"
    "gen_tally gen = Tally (geom gen) md (the (cfg_tally (default_cards config_one)))"
    using init_MC_module_InrD[OF gen] by blast
  have vx': "vx' = vx" using d(1,3) c(1) v by simp
  have s: "si_sp_str (gen_source gen) = Some ''''"
    using d(5)[symmetric] by (simp add: default_cards_fields c(3) src)
  have t: "config (gen_tally gen) = None"
    by (simp add: d(6) default_cards_fields c(4) Tally_def)
  have "fst (to_file example_fmt gen) = None"
    by (rule to_file_ok[OF init_MC_module_keys[OF gen] s t])
  then have r: "fst (run example_fmt image_222 config_one) = None"
    by (cases "to_file example_fmt gen") (simp add: run_def gen)
  have "index_map (geom gen) = index_map vx" "density_table (geom gen) = density_table vx"
    using Geometry_InrD(3,6)[OF d(4)] vx' by simp_all
  then show ?thesis using r f gen by simp
qed

end
